theory Spec2Isabelle
  imports Complex_Main "HOL-Library.Sublist"
begin

section \<open>Python values as the tools see them\<close>

text \<open>
  The three tools of \<^verbatim>\<open>tools.py\<close> marshal requests to web services and read the parsed
  JSON answers with Python's generic operations (\<^verbatim>\<open>.get\<close>, subscription, \<^verbatim>\<open>len\<close>,
  \<^verbatim>\<open>min\<close>, \<^verbatim>\<open>max\<close>, \<^verbatim>\<open>zip\<close>, truth value). A parsed answer is a value of \<open>jval\<close>.
  A string is its UTF-8 text, one \<open>char\<close> per byte; a lone surrogate, which a Python
  string can hold and UTF-8 cannot encode, is written as the three bytes of its code point
  (\<open>ED A0 80\<close> for U+D800). An object keeps its keys distinct and
  in insertion order, as a Python \<^verbatim>\<open>dict\<close> does. A float is a rational, an infinity or
  NaN: the tools only compare and print floats, they never compute with them.
\<close>

datatype pyfloat = NaN | NegInf | Fin rat | PosInf

datatype jval =
    JNull
  | JBool bool
  | JInt int
  | JFloat pyfloat
  | JStr string
  | JArr "jval list"
  | JObj "(string \<times> jval) list"

text \<open>
  Exceptions below \<^verbatim>\<open>Exception\<close>, by the classes the handlers tell apart. The first four
  carry \<^verbatim>\<open>str(e)\<close>. \<open>RequestException\<close> stands for every
  \<^verbatim>\<open>requests.exceptions.RequestException\<close> that is not an \<open>HTTPError\<close>, and
  \<open>OtherException\<close> for any other exception a library call raises. The last six are raised
  by the built-in operations; \<open>UnicodeEncodeError\<close> is what \<^verbatim>\<open>print\<close> raises for a text
  that the encoding of the standard output cannot take. \<^verbatim>\<open>KeyboardInterrupt\<close> and
  \<^verbatim>\<open>SystemExit\<close> are not exceptions in this sense (no handler of the file catches them)
  and are left out.
\<close>

datatype exn =
    HTTPError string
  | RequestException string
  | FileNotFoundError string
  | OtherException string
  | KeyError
  | IndexError
  | TypeError
  | ValueError
  | AttributeError
  | UnicodeEncodeError

definition and_then :: "exn + 'a \<Rightarrow> ('a \<Rightarrow> exn + 'b) \<Rightarrow> exn + 'b" where
  "and_then r f = (case r of Inl e \<Rightarrow> Inl e | Inr v \<Rightarrow> f v)"

subsection \<open>Strings\<close>

text \<open>The characters of a string: a lead byte with the continuation bytes after it.\<close>

definition is_cont :: "char \<Rightarrow> bool" where
  "is_cont c = (128 \<le> (of_char c :: nat) \<and> (of_char c :: nat) < 192)"

function py_chars :: "string \<Rightarrow> string list" where
  "py_chars [] = []"
| "py_chars (c # cs) = (c # takeWhile is_cont cs) # py_chars (dropWhile is_cont cs)"
  by pat_completeness auto
termination
  by (relation "measure length") (auto simp: length_dropWhile_le less_Suc_eq_le)

text \<open>\<^verbatim>\<open>s.split(sep)\<close> for a separator of one ASCII character.\<close>

fun split_on :: "char \<Rightarrow> string \<Rightarrow> string list" where
  "split_on sep [] = [[]]"
| "split_on sep (c # cs) =
     (if c = sep then [] # split_on sep cs
      else (case split_on sep cs of [] \<Rightarrow> [[c]] | p # ps \<Rightarrow> (c # p) # ps))"

text \<open>
  \<^verbatim>\<open>s.lower()\<close> on the ASCII letters. Python also lowers letters outside ASCII, to text
  that is never made of the letters of \<^verbatim>\<open>general\<close> alone, so the comparison of the lowered
  query with \<^verbatim>\<open>'general'\<close>, the only use of \<^verbatim>\<open>lower\<close> in the file, is the same.
\<close>

definition lower_char :: "char \<Rightarrow> char" where
  "lower_char c =
     (case map_of (zip ''ABCDEFGHIJKLMNOPQRSTUVWXYZ'' ''abcdefghijklmnopqrstuvwxyz'') c of
        None \<Rightarrow> c
      | Some l \<Rightarrow> l)"

definition lower :: "string \<Rightarrow> string" where
  "lower s = map lower_char s"

text \<open>\<^verbatim>\<open>sep.join(xs)\<close>.\<close>

fun join :: "string \<Rightarrow> string list \<Rightarrow> string" where
  "join sep [] = []"
| "join sep [x] = x"
| "join sep (x # y # ys) = x @ sep @ join sep (y # ys)"

text \<open>\<^verbatim>\<open>str(n)\<close> of an integer.\<close>

fun str_nat :: "nat \<Rightarrow> string" where
  "str_nat n =
     (if n < 10 then [''0123456789'' ! n]
      else str_nat (n div 10) @ [''0123456789'' ! (n mod 10)])"

declare str_nat.simps [simp del]

definition str_int :: "int \<Rightarrow> string" where
  "str_int i = (if i < 0 then CHR ''-'' # str_nat (nat (- i)) else str_nat (nat i))"

subsection \<open>Truth value, lookup, subscription, length, iteration\<close>

fun truthy :: "jval \<Rightarrow> bool" where
  "truthy JNull = False"
| "truthy (JBool b) = b"
| "truthy (JInt i) = (i \<noteq> 0)"
| "truthy (JFloat f) = (f \<noteq> Fin 0)"
| "truthy (JStr s) = (s \<noteq> [])"
| "truthy (JArr xs) = (xs \<noteq> [])"
| "truthy (JObj kvs) = (kvs \<noteq> [])"

text \<open>\<^verbatim>\<open>obj.get(key, default)\<close>: only a dict has the method.\<close>

fun dict_get :: "jval \<Rightarrow> string \<Rightarrow> jval \<Rightarrow> exn + jval" where
  "dict_get (JObj kvs) k d = Inr (case map_of kvs k of None \<Rightarrow> d | Some v \<Rightarrow> v)"
| "dict_get _ k d = Inl AttributeError"

text \<open>\<^verbatim>\<open>obj[key]\<close> with a string key.\<close>

fun getitem :: "jval \<Rightarrow> string \<Rightarrow> exn + jval" where
  "getitem (JObj kvs) k = (case map_of kvs k of None \<Rightarrow> Inl KeyError | Some v \<Rightarrow> Inr v)"
| "getitem _ k = Inl TypeError"

text \<open>\<^verbatim>\<open>obj[i]\<close> with an index \<open>i \<ge> 0\<close>; no key of a parsed object is an integer.\<close>

fun getindex :: "jval \<Rightarrow> nat \<Rightarrow> exn + jval" where
  "getindex (JArr xs) i = (if i < length xs then Inr (xs ! i) else Inl IndexError)"
| "getindex (JStr s) i =
     (if i < length (py_chars s) then Inr (JStr (py_chars s ! i)) else Inl IndexError)"
| "getindex (JObj kvs) i = Inl KeyError"
| "getindex _ i = Inl TypeError"

definition list_index :: "'a list \<Rightarrow> nat \<Rightarrow> exn + 'a" where
  "list_index xs i = (if i < length xs then Inr (xs ! i) else Inl IndexError)"

fun py_len :: "jval \<Rightarrow> exn + nat" where
  "py_len (JArr xs) = Inr (length xs)"
| "py_len (JStr s) = Inr (length (py_chars s))"
| "py_len (JObj kvs) = Inr (length kvs)"
| "py_len _ = Inl TypeError"

text \<open>The items a \<^verbatim>\<open>for\<close> loop, \<^verbatim>\<open>min\<close>, \<^verbatim>\<open>zip\<close> or \<^verbatim>\<open>enumerate\<close> draws from a value.\<close>

fun py_iter :: "jval \<Rightarrow> exn + jval list" where
  "py_iter (JArr xs) = Inr xs"
| "py_iter (JStr s) = Inr (map JStr (py_chars s))"
| "py_iter (JObj kvs) = Inr (map (\<lambda>kv. JStr (fst kv)) kvs)"
| "py_iter _ = Inl TypeError"

fun py_split :: "jval \<Rightarrow> char \<Rightarrow> exn + string list" where
  "py_split (JStr s) sep = Inr (split_on sep s)"
| "py_split _ sep = Inl AttributeError"

subsection \<open>Comparison, \<^verbatim>\<open>min\<close> and \<^verbatim>\<open>max\<close>\<close>

datatype cmp_op = Lt | Le | Gt | Ge

text \<open>A \<^verbatim>\<open>bool\<close> is an \<^verbatim>\<open>int\<close>, and an \<^verbatim>\<open>int\<close> compares with a \<^verbatim>\<open>float\<close> exactly.\<close>

fun num_of :: "jval \<Rightarrow> pyfloat option" where
  "num_of (JBool b) = Some (Fin (if b then 1 else 0))"
| "num_of (JInt i) = Some (Fin (of_int i))"
| "num_of (JFloat f) = Some f"
| "num_of _ = None"

fun fl_lt :: "pyfloat \<Rightarrow> pyfloat \<Rightarrow> bool" where
  "fl_lt NaN _ = False"
| "fl_lt _ NaN = False"
| "fl_lt NegInf y = (y \<noteq> NegInf)"
| "fl_lt (Fin a) (Fin b) = (a < b)"
| "fl_lt (Fin a) PosInf = True"
| "fl_lt _ _ = False"

text \<open>Every comparison with NaN is false.\<close>

fun fl_cmp :: "cmp_op \<Rightarrow> pyfloat \<Rightarrow> pyfloat \<Rightarrow> bool" where
  "fl_cmp Lt x y = fl_lt x y"
| "fl_cmp Gt x y = fl_lt y x"
| "fl_cmp Le x y = (x \<noteq> NaN \<and> y \<noteq> NaN \<and> \<not> fl_lt y x)"
| "fl_cmp Ge x y = (x \<noteq> NaN \<and> y \<noteq> NaN \<and> \<not> fl_lt x y)"

text \<open>Strings compare by code point, which is the order of their UTF-8 bytes.\<close>

fun str_lt :: "string \<Rightarrow> string \<Rightarrow> bool" where
  "str_lt [] [] = False"
| "str_lt [] (d # t) = True"
| "str_lt (c # s) [] = False"
| "str_lt (c # s) (d # t) =
     (if c = d then str_lt s t else (of_char c :: nat) < of_char d)"

fun str_cmp :: "cmp_op \<Rightarrow> string \<Rightarrow> string \<Rightarrow> bool" where
  "str_cmp Lt s t = str_lt s t"
| "str_cmp Gt s t = str_lt t s"
| "str_cmp Le s t = (\<not> str_lt t s)"
| "str_cmp Ge s t = (\<not> str_lt s t)"

text \<open>
  \<open>same x y\<close>: \<^verbatim>\<open>x is y or x == y\<close>, the test by which a list comparison skips equal
  items. The decoder's NaN is one shared object, so two NaN items are the same here.
\<close>

fun same :: "jval \<Rightarrow> jval \<Rightarrow> bool" where
  "same (JArr xs) (JArr ys) = list_all2 same xs ys"
| "same (JObj a) (JObj b) =
     (length a = length b \<and>
      (\<forall>(k, v) \<in> set a. case map_of b k of None \<Rightarrow> False | Some w \<Rightarrow> same v w))"
| "same (JStr s) (JStr t) = (s = t)"
| "same JNull JNull = True"
| "same x y = (case (num_of x, num_of y) of (Some a, Some b) \<Rightarrow> a = b | _ \<Rightarrow> False)"

text \<open>
  \<^verbatim>\<open>x < y\<close>, \<^verbatim>\<open>x <= y\<close>, \<^verbatim>\<open>x > y\<close>, \<^verbatim>\<open>x >= y\<close>: numbers with numbers, strings with
  strings, lists with lists (by the first pair of items that are not the same, else by
  length); anything else is a \<^verbatim>\<open>TypeError\<close>.
\<close>

fun py_cmp :: "cmp_op \<Rightarrow> jval \<Rightarrow> jval \<Rightarrow> exn + bool"
  and list_cmp :: "cmp_op \<Rightarrow> jval list \<Rightarrow> jval list \<Rightarrow> exn + bool" where
  "py_cmp op (JStr s) (JStr t) = Inr (str_cmp op s t)"
| "py_cmp op (JArr xs) (JArr ys) = list_cmp op xs ys"
| "py_cmp op x y =
     (case (num_of x, num_of y) of
        (Some a, Some b) \<Rightarrow> Inr (fl_cmp op a b)
      | _ \<Rightarrow> Inl TypeError)"
| "list_cmp op [] [] = Inr (op = Le \<or> op = Ge)"
| "list_cmp op [] (y # ys) = Inr (op = Lt \<or> op = Le)"
| "list_cmp op (x # xs) [] = Inr (op = Gt \<or> op = Ge)"
| "list_cmp op (x # xs) (y # ys) =
     (if same x y then list_cmp op xs ys else py_cmp op x y)"

text \<open>
  \<^verbatim>\<open>min\<close> and \<^verbatim>\<open>max\<close> keep the first item and replace it by each later item that is
  smaller (for \<^verbatim>\<open>max\<close>: greater) than the one kept; an empty argument is a \<^verbatim>\<open>ValueError\<close>.
\<close>

fun best_from :: "cmp_op \<Rightarrow> jval \<Rightarrow> jval list \<Rightarrow> exn + jval" where
  "best_from op m [] = Inr m"
| "best_from op m (x # xs) =
     and_then (py_cmp op x m) (\<lambda>b. best_from op (if b then x else m) xs)"

definition best_of :: "cmp_op \<Rightarrow> jval \<Rightarrow> exn + jval" where
  "best_of op v =
     and_then (py_iter v)
       (\<lambda>items. case items of [] \<Rightarrow> Inl ValueError | x # xs \<Rightarrow> best_from op x xs)"

definition py_min :: "jval \<Rightarrow> exn + jval" where
  "py_min v = best_of Lt v"

definition py_max :: "jval \<Rightarrow> exn + jval" where
  "py_max v = best_of Gt v"

subsection \<open>Text of a value\<close>

text \<open>
  What Python prints for a float, for a list or a dict, for a number under the format
  \<^verbatim>\<open>.2f\<close> (which fails on an integer too large for a float) and for an exception of a
  built-in operation is the interpreter's business: the tools are modelled over any such
  runtime.
\<close>

record pyrt =
  float_str :: "pyfloat \<Rightarrow> string"
  container_str :: "jval \<Rightarrow> string"
  fixed2 :: "jval \<Rightarrow> exn + string"
  builtin_msg :: "exn \<Rightarrow> string"

text \<open>\<^verbatim>\<open>str(v)\<close>, which is also \<^verbatim>\<open>{v}\<close> in an f-string.\<close>

fun py_str :: "pyrt \<Rightarrow> jval \<Rightarrow> string" where
  "py_str rt JNull = ''None''"
| "py_str rt (JBool b) = (if b then ''True'' else ''False'')"
| "py_str rt (JInt i) = str_int i"
| "py_str rt (JFloat f) = float_str rt f"
| "py_str rt (JStr s) = s"
| "py_str rt v = container_str rt v"

text \<open>\<^verbatim>\<open>{v:.2f}\<close>: a number only.\<close>

fun format_2f :: "pyrt \<Rightarrow> jval \<Rightarrow> exn + string" where
  "format_2f rt (JStr s) = Inl ValueError"
| "format_2f rt v = (case num_of v of None \<Rightarrow> Inl TypeError | Some _ \<Rightarrow> fixed2 rt v)"

text \<open>\<^verbatim>\<open>str(e)\<close>.\<close>

fun exn_str :: "pyrt \<Rightarrow> exn \<Rightarrow> string" where
  "exn_str rt (HTTPError m) = m"
| "exn_str rt (RequestException m) = m"
| "exn_str rt (FileNotFoundError m) = m"
| "exn_str rt (OtherException m) = m"
| "exn_str rt e = builtin_msg rt e"

section \<open>The web services\<close>

text \<open>
  \<^verbatim>\<open>requests.get(url, params=params)\<close> either raises or returns a response, which is
  read through \<^verbatim>\<open>status_code\<close>, \<^verbatim>\<open>text\<close>, \<^verbatim>\<open>raise_for_status()\<close> (\<open>None\<close>: it
  returns) and \<^verbatim>\<open>json()\<close>. The services are a parameter of the tools: any function from
  requests to such outcomes. Each tool returns the requests it issued, in order, with its
  result.

  \<^verbatim>\<open>print(line)\<close> writes to the standard output, which is a parameter too: \<open>None\<close> when the
  line is written, the exception when the write raises. \<open>get_weather\<close> prints at line 98,
  before its \<^verbatim>\<open>try\<close> block. The \<^verbatim>\<open>print\<close> at line 198 of \<open>news_tool\<close> is not modelled:
  what is stated of \<open>news_tool\<close> is stated of the calls in which that line is written.
\<close>

record response =
  status_code :: int
  body_text :: string
  raise_for_status :: "exn option"
  json :: "exn + jval"

type_synonym request = "string \<times> (string \<times> jval) list"

type_synonym http = "request \<Rightarrow> exn + response"

type_synonym stdout = "string \<Rightarrow> exn option"

text \<open>The three lines \<^verbatim>\<open>r = requests.get(..); r.raise_for_status(); data = r.json()\<close>.\<close>

definition get_json :: "http \<Rightarrow> request \<Rightarrow> exn + jval" where
  "get_json get call =
     and_then (get call)
       (\<lambda>r. case raise_for_status r of Some e \<Rightarrow> Inl e | None \<Rightarrow> json r)"

text \<open>What a tool returns in a dict: text, a parsed value, or the list of pairs of \<^verbatim>\<open>zip\<close>.\<close>

datatype pyval = Str string | Val jval | Pairs "(jval \<times> jval) list"

type_synonym pydict = "(string \<times> pyval) list"

definition apostrophe :: string where
  "apostrophe = [CHR 0x27]"

definition degree_sign :: string where
  "degree_sign = [CHR 0xC2, CHR 0xB0]"

section \<open>Weather tool\<close>

definition GEOCODING_URL :: string where
  "GEOCODING_URL = ''https://geocoding-api.open-meteo.com/v1/search''"

definition FORECAST_URL :: string where
  "FORECAST_URL = ''https://api.open-meteo.com/v1/forecast''"

definition error_dict :: "string \<Rightarrow> pydict" where
  "error_dict msg = [(''status'', Str ''error''), (''error_message'', Str msg)]"

text \<open>The first geocoding result and the four fields read from it (lines 111 to 116).\<close>

definition read_location :: "jval \<Rightarrow> exn + (jval \<times> jval \<times> jval \<times> jval)" where
  "read_location geo_data =
     and_then (and_then (getitem geo_data ''results'') (\<lambda>results. getindex results 0))
       (\<lambda>location.
     and_then (getitem location ''latitude'') (\<lambda>latitude.
     and_then (getitem location ''longitude'') (\<lambda>longitude.
     and_then (getitem location ''name'') (\<lambda>found_city.
     and_then (getitem location ''country'') (\<lambda>country.
       Inr (latitude, longitude, found_city, country))))))"

text \<open>The head of the report (lines 138 to 144).\<close>

definition report_head ::
  "pyrt \<Rightarrow> jval \<Rightarrow> jval \<Rightarrow> jval \<Rightarrow> jval \<Rightarrow> jval \<Rightarrow> jval \<Rightarrow> exn + string" where
  "report_head rt found_city country latitude longitude min_temp max_temp =
     and_then (format_2f rt latitude) (\<lambda>lat.
     and_then (format_2f rt longitude) (\<lambda>lon.
       Inr (''Hourly Temperature Forecast for '' @ py_str rt found_city @ '', ''
            @ py_str rt country @ '' (Lat: '' @ lat @ '', Lon: '' @ lon
            @ '') for the next 24 hours:\<newline>''
            @ ''Min Temperature: '' @ py_str rt min_temp @ degree_sign @ ''C\<newline>''
            @ ''Max Temperature: '' @ py_str rt max_temp @ degree_sign @ ''C\<newline>''
            @ ''Hourly Data (Time: Temp):\<newline>'')))"

text \<open>
  The loop over \<^verbatim>\<open>range(0, len(times), 4)\<close> (lines 146 and 147); \<open>hours\<close> is the
  source's \<^verbatim>\<open>times\<close>.
\<close>

definition sample_indices :: "nat \<Rightarrow> nat list" where
  "sample_indices n = filter (\<lambda>i. i mod 4 = 0) [0..<n]"

fun report_rows :: "pyrt \<Rightarrow> jval \<Rightarrow> jval \<Rightarrow> nat list \<Rightarrow> string \<Rightarrow> exn + string" where
  "report_rows rt hours temperatures [] report = Inr report"
| "report_rows rt hours temperatures (i # rest) report =
     and_then (getindex hours i) (\<lambda>t.
     and_then (py_split t CHR ''T'') (\<lambda>date_and_time.
     and_then (list_index date_and_time 1) (\<lambda>time_part.
     and_then (list_index (split_on CHR '':'' time_part) 0) (\<lambda>hour.
     and_then (getindex temperatures i) (\<lambda>temperature.
       report_rows rt hours temperatures rest
         (report @ ''  '' @ hour @ ''h: '' @ py_str rt temperature
          @ degree_sign @ ''C\<newline>''))))))"

definition py_zip :: "jval \<Rightarrow> jval \<Rightarrow> exn + (jval \<times> jval) list" where
  "py_zip xs ys =
     and_then (py_iter xs) (\<lambda>as. and_then (py_iter ys) (\<lambda>bs. Inr (zip as bs)))"

text \<open>Step 3 of the tool, from the parsed forecast to the returned dict (lines 130 to 157).\<close>

definition compile_report ::
  "pyrt \<Rightarrow> jval \<Rightarrow> jval \<Rightarrow> jval \<Rightarrow> jval \<Rightarrow> jval \<Rightarrow> exn + pydict" where
  "compile_report rt found_city country latitude longitude forecast_data =
     and_then (and_then (getitem forecast_data ''hourly'') (\<lambda>h. getitem h ''time''))
       (\<lambda>hours.
     and_then
       (and_then (getitem forecast_data ''hourly'') (\<lambda>h. getitem h ''temperature_2m''))
       (\<lambda>temperatures.
     and_then (py_min temperatures) (\<lambda>min_temp.
     and_then (py_max temperatures) (\<lambda>max_temp.
     and_then (report_head rt found_city country latitude longitude min_temp max_temp)
       (\<lambda>head.
     and_then (py_len hours) (\<lambda>n.
     and_then (report_rows rt hours temperatures (sample_indices n) head) (\<lambda>report.
     and_then (py_zip hours temperatures) (\<lambda>hourly_data.
       Inr [(''status'', Str ''success''),
            (''city'', Val found_city),
            (''report'', Str report),
            (''min_temperature_celsius'', Val min_temp),
            (''max_temperature_celsius'', Val max_temp),
            (''hourly_data'', Pairs hourly_data)]))))))))"

text \<open>The \<^verbatim>\<open>try\<close> block of \<^verbatim>\<open>get_weather\<close> (lines 100 to 157).\<close>

definition geo_call :: "string \<Rightarrow> request" where
  "geo_call city =
     (GEOCODING_URL,
      [(''name'', JStr city), (''count'', JInt 1),
       (''language'', JStr ''en''), (''format'', JStr ''json'')])"

definition forecast_call :: "jval \<Rightarrow> jval \<Rightarrow> request" where
  "forecast_call latitude longitude =
     (FORECAST_URL,
      [(''latitude'', latitude), (''longitude'', longitude),
       (''hourly'', JStr ''temperature_2m''), (''forecast_days'', JInt 1)])"

definition get_weather_try :: "pyrt \<Rightarrow> http \<Rightarrow> string \<Rightarrow> request list \<times> (exn + pydict)" where
  "get_weather_try rt get city =
     (case get_json get (geo_call city) of
        Inl e \<Rightarrow> ([geo_call city], Inl e)
      | Inr geo_data \<Rightarrow>
          (case dict_get geo_data ''results'' JNull of
             Inl e \<Rightarrow> ([geo_call city], Inl e)
           | Inr results \<Rightarrow>
               if \<not> truthy results then
                 ([geo_call city],
                  Inr (error_dict (''Sorry, could not find coordinates for ''
                         @ apostrophe @ city @ apostrophe @ ''.'')))
               else
                 (case read_location geo_data of
                    Inl e \<Rightarrow> ([geo_call city], Inl e)
                  | Inr (latitude, longitude, found_city, country) \<Rightarrow>
                      ([geo_call city, forecast_call latitude longitude],
                       and_then (get_json get (forecast_call latitude longitude))
                         (compile_report rt found_city country latitude longitude)))))"

text \<open>The three handlers (lines 159 to 166), in the order Python tries them.\<close>

fun weather_error :: "pyrt \<Rightarrow> exn \<Rightarrow> pydict" where
  "weather_error rt (HTTPError m) =
     error_dict (''HTTP Error: Could not fetch data. ('' @ exn_str rt (HTTPError m) @ '')'')"
| "weather_error rt (RequestException m) =
     error_dict ''Connection Error: Could not connect to the API server.''"
| "weather_error rt e =
     error_dict (''An unexpected error occurred: '' @ exn_str rt e)"

text \<open>The line printed at line 98.\<close>

definition get_weather_called :: "string \<Rightarrow> string" where
  "get_weather_called city = ''--- Tool: get_weather called for city: '' @ city @ '' ---''"

text \<open>
  \<^verbatim>\<open>get_weather\<close> (lines 86 to 166): the \<^verbatim>\<open>print\<close> of line 98 stands before the \<^verbatim>\<open>try\<close>
  block, so what it raises reaches the caller (\<open>Inl\<close>) and no request is issued; after it,
  the \<^verbatim>\<open>try\<close> block returns its dict or a handler returns the error dict (\<open>Inr\<close>).
\<close>

definition get_weather ::
  "pyrt \<Rightarrow> stdout \<Rightarrow> http \<Rightarrow> string \<Rightarrow> request list \<times> (exn + pydict)" where
  "get_weather rt out get city =
     (case out (get_weather_called city) of
        Some e \<Rightarrow> ([], Inl e)
      | None \<Rightarrow>
          (case get_weather_try rt get city of
             (calls, Inr result) \<Rightarrow> (calls, Inr result)
           | (calls, Inl e) \<Rightarrow> (calls, Inr (weather_error rt e))))"

section \<open>News tool\<close>

definition NEWS_API_BASE_URL_EVERYTHING :: string where
  "NEWS_API_BASE_URL_EVERYTHING = ''https://newsapi.org/v2/everything''"

definition NEWS_API_BASE_URL_HEADLINES :: string where
  "NEWS_API_BASE_URL_HEADLINES = ''https://newsapi.org/v2/top-headlines''"

definition NEWS_API_KEY :: string where
  "NEWS_API_KEY = ''7bf6895b452a4bf2b3f84c531e36dffd''"

record NewsToolInput =
  query :: string
  max_articles :: int


text \<open>The branch on the query (lines 201 to 219): endpoint, parameters, description.\<close>

definition news_request :: "NewsToolInput \<Rightarrow> string \<times> (string \<times> jval) list \<times> string" where
  "news_request input =
     (if lower (query input) = ''general'' then
        (NEWS_API_BASE_URL_HEADLINES,
         [(''apiKey'', JStr NEWS_API_KEY),
          (''country'', JStr ''us''),
          (''pageSize'', JInt (max_articles input))],
         ''Top US Headlines'')
      else
        (NEWS_API_BASE_URL_EVERYTHING,
         [(''apiKey'', JStr NEWS_API_KEY),
          (''q'', JStr (query input)),
          (''sortBy'', JStr ''publishedAt''),
          (''pageSize'', JInt (max_articles input))],
         ''News about '' @ apostrophe @ query input @ apostrophe))"

text \<open>The loop over \<^verbatim>\<open>enumerate(articles)\<close> (lines 232 to 238); \<open>i\<close> counts from 0.\<close>

fun output_list :: "pyrt \<Rightarrow> nat \<Rightarrow> jval list \<Rightarrow> exn + string list" where
  "output_list rt i [] = Inr []"
| "output_list rt i (article # rest) =
     and_then (dict_get article ''title'' (JStr ''N/A'')) (\<lambda>title.
     and_then (dict_get article ''description'' (JStr ''N/A'')) (\<lambda>description.
     and_then (output_list rt (i + 1) rest) (\<lambda>out.
       Inr ((''--- Article '' @ str_nat (i + 1) @ '' ---\<newline>''
             @ ''Title: '' @ py_str rt title @ ''\<newline>''
             @ ''Description: '' @ py_str rt description) # out))))"

text \<open>Lines 223 to 241, once \<^verbatim>\<open>requests.get\<close> has returned the response.\<close>

definition news_result :: "pyrt \<Rightarrow> string \<Rightarrow> response \<Rightarrow> exn + string" where
  "news_result rt query_desc r =
     (case raise_for_status r of
        Some e \<Rightarrow> Inl e
      | None \<Rightarrow>
          and_then (json r) (\<lambda>data.
          and_then (dict_get data ''articles'' (JArr [])) (\<lambda>articles.
            if \<not> truthy articles then
              Inr (''INFO: No news articles found for '' @ query_desc @ ''.'')
            else
              and_then (py_iter articles) (\<lambda>items.
              and_then (output_list rt 0 items) (\<lambda>out.
              and_then (py_len articles) (\<lambda>n.
                Inr (''Top '' @ str_nat n @ '' Results for '' @ query_desc @ '':''
                     @ ''\<newline>\<newline>'' @ join ''\<newline>\<newline>'' out)))))))"

text \<open>
  The three handlers (lines 243 to 250). \<open>r\<close> is the response when \<^verbatim>\<open>response\<close> is bound,
  that is when \<^verbatim>\<open>requests.get\<close> returned.
\<close>

fun news_error :: "pyrt \<Rightarrow> response option \<Rightarrow> exn \<Rightarrow> string" where
  "news_error rt r (HTTPError m) =
     ''ERROR: HTTP Error accessing News API. Status Code: ''
     @ (case r of None \<Rightarrow> ''N/A'' | Some response \<Rightarrow> str_int (status_code response))
     @ ''. Details: ''
     @ (case r of None \<Rightarrow> exn_str rt (HTTPError m) | Some response \<Rightarrow> body_text response)"
| "news_error rt r (RequestException m) =
     ''ERROR: Connection Error: Could not connect to the News API server.''"
| "news_error rt r e =
     ''ERROR: An unexpected error occurred in news_tool: '' @ exn_str rt e"

definition news_tool :: "pyrt \<Rightarrow> http \<Rightarrow> NewsToolInput \<Rightarrow> request list \<times> string" where
  "news_tool rt get input =
     (case news_request input of
        (api_url, params, query_desc) \<Rightarrow>
          (case get (api_url, params) of
             Inl e \<Rightarrow> ([(api_url, params)], news_error rt None e)
           | Inr r \<Rightarrow>
               ([(api_url, params)],
                case news_result rt query_desc r of
                  Inr s \<Rightarrow> s
                | Inl e \<Rightarrow> news_error rt (Some r) e)))"

section \<open>Credential store and calendar tool\<close>

text \<open>
  A credential as \<^verbatim>\<open>get_calendar_service\<close> reads it: the access token, whether it has
  expired (read once per call; the clock is not modelled), the refresh token, and its
  serialised form \<^verbatim>\<open>to_json()\<close>. \<^verbatim>\<open>valid\<close> is the library's property: there is a token
  and it has not expired.
\<close>

record creds =
  token :: "string option"
  expired :: bool
  refresh_token :: "string option"
  to_json :: string

definition valid :: "creds \<Rightarrow> bool" where
  "valid c = (token c \<noteq> None \<and> \<not> expired c)"

text \<open>The truth value of \<^verbatim>\<open>creds.refresh_token\<close>: neither \<^verbatim>\<open>None\<close> nor empty.\<close>

definition has_refresh_token :: "creds \<Rightarrow> bool" where
  "has_refresh_token c = (case refresh_token c of None \<Rightarrow> False | Some s \<Rightarrow> s \<noteq> [])"

datatype service = Service creds

text \<open>
  The Google libraries and the file system are a parameter: what
  \<^verbatim>\<open>Credentials.from_authorized_user_file\<close> makes of the token file's contents, what
  \<^verbatim>\<open>creds.refresh(Request())\<close> leaves in the credential, whether
  \<^verbatim>\<open>InstalledAppFlow.from_client_secrets_file\<close> raises, what \<^verbatim>\<open>flow.run_local_server\<close>
  returns, whether opening and writing the token file raises and, when it does, what is
  left of the file (\<^verbatim>\<open>open(.., 'w')\<close> empties the file before anything is written), what
  \<^verbatim>\<open>build\<close> returns, and what
  \<^verbatim>\<open>service.events().insert(calendarId=.., body=..).execute()\<close> returns.
\<close>

record google =
  from_authorized_user_file :: "string \<Rightarrow> exn + creds"
  refresh :: "creds \<Rightarrow> exn + creds"
  from_client_secrets_file :: "exn option"
  run_local_server :: "exn + creds"
  write_token :: "exn option"
  torn_write :: "string option \<Rightarrow> string option"
  build :: "creds \<Rightarrow> exn + service"
  insert_execute :: "service \<Rightarrow> string \<Rightarrow> jval \<Rightarrow> exn + jval"

text \<open>
  The state: the contents of \<^verbatim>\<open>my_agent/token.json\<close> if the file exists, whether
  \<^verbatim>\<open>my_agent/credentials.json\<close> exists, and the library calls made so far, each with
  whether it returned (\<open>True\<close>) or raised (\<open>False\<close>).
\<close>

datatype call =
    LoadToken
  | Refresh
  | ReadClientSecrets
  | RunLocalServer
  | WriteToken string
  | Build
  | InsertEvent jval

record world =
  token_file :: "string option"
  credentials_file :: bool
  trace :: "(call \<times> bool) list"

definition logged :: "call \<Rightarrow> bool \<Rightarrow> world \<Rightarrow> world" where
  "logged c returned w = w\<lparr>trace := trace w @ [(c, returned)]\<rparr>"

definition CREDENTIALS_FILE :: string where
  "CREDENTIALS_FILE = ''my_agent/credentials.json''"

definition missing_client_secret :: exn where
  "missing_client_secret =
     FileNotFoundError (''Missing '' @ CREDENTIALS_FILE
       @ ''. Please download it from Google Cloud Console.'')"

text \<open>Lines 22 to 26: \<^verbatim>\<open>creds = None\<close>, then the saved token if the file exists.\<close>

definition load_saved :: "google \<Rightarrow> world \<Rightarrow> world \<times> (exn + creds option)" where
  "load_saved env w =
     (case token_file w of
        None \<Rightarrow> (w, Inr None)
      | Some contents \<Rightarrow>
          (case from_authorized_user_file env contents of
             Inl e \<Rightarrow> (logged LoadToken False w, Inl e)
           | Inr c \<Rightarrow> (logged LoadToken True w, Inr (Some c))))"

text \<open>Lines 34 to 39: the first-time login, which needs the client-secret file.\<close>

definition login :: "google \<Rightarrow> world \<Rightarrow> world \<times> (exn + creds)" where
  "login env w =
     (if \<not> credentials_file w then (w, Inl missing_client_secret)
      else
        (case from_client_secrets_file env of
           Some e \<Rightarrow> (logged ReadClientSecrets False w, Inl e)
         | None \<Rightarrow>
             (case run_local_server env of
                Inl e \<Rightarrow> (logged RunLocalServer False (logged ReadClientSecrets True w), Inl e)
              | Inr c \<Rightarrow>
                  (logged RunLocalServer True (logged ReadClientSecrets True w), Inr c))))"

text \<open>Lines 30 to 39: refresh if \<^verbatim>\<open>creds and creds.expired and creds.refresh_token\<close>.\<close>

definition refresh_or_login :: "google \<Rightarrow> world \<Rightarrow> creds option \<Rightarrow> world \<times> (exn + creds)" where
  "refresh_or_login env w saved =
     (case saved of
        None \<Rightarrow> login env w
      | Some c \<Rightarrow>
          if expired c \<and> has_refresh_token c then
            (case refresh env c of
               Inl e \<Rightarrow> (logged Refresh False w, Inl e)
             | Inr c' \<Rightarrow> (logged Refresh True w, Inr c'))
          else login env w)"

text \<open>Lines 42 and 43: the token file is opened for writing and gets \<^verbatim>\<open>creds.to_json()\<close>.\<close>

definition save_token :: "google \<Rightarrow> world \<Rightarrow> creds \<Rightarrow> world \<times> (exn + creds)" where
  "save_token env w c =
     (case write_token env of
        Some e \<Rightarrow>
          (logged (WriteToken (to_json c)) False
             (w\<lparr>token_file := torn_write env (token_file w)\<rparr>), Inl e)
      | None \<Rightarrow>
          (logged (WriteToken (to_json c)) True (w\<lparr>token_file := Some (to_json c)\<rparr>), Inr c))"

definition build_service :: "google \<Rightarrow> world \<Rightarrow> creds \<Rightarrow> world \<times> (exn + service)" where
  "build_service env w c =
     (case build env c of
        Inl e \<Rightarrow> (logged Build False w, Inl e)
      | Inr s \<Rightarrow> (logged Build True w, Inr s))"

text \<open>Lines 30 to 43: a new credential by refresh or login, saved to the token file.\<close>

definition renew :: "google \<Rightarrow> world \<Rightarrow> creds option \<Rightarrow> world \<times> (exn + creds)" where
  "renew env w saved =
     (case refresh_or_login env w saved of
        (w1, Inl e) \<Rightarrow> (w1, Inl e)
      | (w1, Inr c) \<Rightarrow> save_token env w1 c)"

text \<open>
  \<^verbatim>\<open>get_calendar_service\<close> (lines 20 to 45); the inner case is
  \<^verbatim>\<open>if not creds or not creds.valid\<close> (line 29).
\<close>

definition get_calendar_service :: "google \<Rightarrow> world \<Rightarrow> world \<times> (exn + service)" where
  "get_calendar_service env w =
     (case load_saved env w of
        (w1, Inl e) \<Rightarrow> (w1, Inl e)
      | (w1, Inr saved) \<Rightarrow>
          (case (case saved of
                   None \<Rightarrow> renew env w1 saved
                 | Some c \<Rightarrow> if \<not> valid c then renew env w1 saved else (w1, Inr c)) of
             (w2, Inl e) \<Rightarrow> (w2, Inl e)
           | (w2, Inr c) \<Rightarrow> build_service env w2 c))"

record CreateEventInput =
  summary :: string
  start_time :: string
  end_time :: string
  timezone :: string

text \<open>The schema (lines 48 to 53): \<^verbatim>\<open>timezone\<close> is optional and defaults to Asia/Kolkata.\<close>

definition new_CreateEventInput ::
  "string \<Rightarrow> string \<Rightarrow> string \<Rightarrow> string option \<Rightarrow> CreateEventInput" where
  "new_CreateEventInput s t0 t1 tz =
     \<lparr>summary = s, start_time = t0, end_time = t1,
      timezone = (case tz of None \<Rightarrow> ''Asia/Kolkata'' | Some z \<Rightarrow> z)\<rparr>"

text \<open>The event sent to the calendar (lines 66 to 71).\<close>

definition event_body :: "CreateEventInput \<Rightarrow> jval" where
  "event_body input =
     JObj [(''summary'', JStr (summary input)),
           (''start'', JObj [(''dateTime'', JStr (start_time input)),
                             (''timeZone'', JStr (timezone input))]),
           (''end'', JObj [(''dateTime'', JStr (end_time input)),
                           (''timeZone'', JStr (timezone input))])]"

text \<open>The returned text of line 76, from the event the calendar answered with.\<close>

definition success_text :: "pyrt \<Rightarrow> jval \<Rightarrow> exn + string" where
  "success_text rt event =
     and_then (dict_get event ''summary'' JNull) (\<lambda>title.
     and_then (and_then (dict_get event ''start'' JNull)
                 (\<lambda>start. dict_get start ''dateTime'' JNull)) (\<lambda>date_time.
     and_then (dict_get event ''htmlLink'' JNull) (\<lambda>link.
       Inr (''SUCCESS: Event '' @ apostrophe @ py_str rt title @ apostrophe
            @ '' scheduled on '' @ py_str rt date_time
            @ ''. Link: '' @ py_str rt link))))"

text \<open>The \<^verbatim>\<open>try\<close> block of \<^verbatim>\<open>create_calendar_event\<close> (lines 63 to 76).\<close>

definition create_calendar_event_try ::
  "pyrt \<Rightarrow> google \<Rightarrow> world \<Rightarrow> CreateEventInput \<Rightarrow> world \<times> (exn + string)" where
  "create_calendar_event_try rt env w input =
     (case get_calendar_service env w of
        (w1, Inl e) \<Rightarrow> (w1, Inl e)
      | (w1, Inr service) \<Rightarrow>
          (case insert_execute env service ''primary'' (event_body input) of
             Inl e \<Rightarrow> (logged (InsertEvent (event_body input)) False w1, Inl e)
           | Inr event \<Rightarrow>
               (logged (InsertEvent (event_body input)) True w1, success_text rt event)))"

definition create_calendar_event ::
  "pyrt \<Rightarrow> google \<Rightarrow> world \<Rightarrow> CreateEventInput \<Rightarrow> world \<times> string" where
  "create_calendar_event rt env w input =
     (case create_calendar_event_try rt env w input of
        (w1, Inr s) \<Rightarrow> (w1, s)
      | (w1, Inl e) \<Rightarrow> (w1, ''ERROR: Could not create event. Details: '' @ exn_str rt e))"

text \<open>The events sent to the calendar: the bodies of the insert calls in the trace.\<close>

definition sent_events :: "world \<Rightarrow> jval list" where
  "sent_events w =
     concat (map (\<lambda>(c, returned). case c of InsertEvent b \<Rightarrow> [b] | _ \<Rightarrow> []) (trace w))"

text \<open>Whether the calendar's answer is an object whose \<open>start\<close> is an object.\<close>

definition answers_with_start :: "jval \<Rightarrow> bool" where
  "answers_with_start event =
     (case dict_get event ''start'' JNull of Inr (JObj kvs) \<Rightarrow> True | _ \<Rightarrow> False)"

text \<open>
  Whether a login is needed: there is no saved token, or the saved token loads as a
  credential that is neither valid nor refreshable.
\<close>

definition login_needed :: "google \<Rightarrow> world \<Rightarrow> bool" where
  "login_needed env w =
     (case token_file w of
        None \<Rightarrow> True
      | Some contents \<Rightarrow>
          (case from_authorized_user_file env contents of
             Inl e \<Rightarrow> False
           | Inr c \<Rightarrow> \<not> valid c \<and> \<not> (expired c \<and> has_refresh_token c)))"

section \<open>A runtime, responses and credentials for the concrete instances\<close>

definition sample_rt :: pyrt where
  "sample_rt =
     \<lparr>float_str = (\<lambda>f. ''float''), container_str = (\<lambda>v. ''container''),
      fixed2 = (\<lambda>v. Inr ''0.00''), builtin_msg = (\<lambda>e. ''error'')\<rparr>"

text \<open>
  A standard output encoded in UTF-8 with strict errors, Python's default: it takes every
  text but one with a surrogate in it (a byte \<open>ED\<close> followed by a byte from \<open>A0\<close> on).
\<close>

fun has_surrogate :: "string \<Rightarrow> bool" where
  "has_surrogate (a # b # cs) =
     ((a = CHR 0xED \<and> (0xA0 :: nat) \<le> of_char b) \<or> has_surrogate (b # cs))"
| "has_surrogate cs = False"

definition utf8_stdout :: stdout where
  "utf8_stdout line = (if has_surrogate line then Some UnicodeEncodeError else None)"

definition ok_response :: "jval \<Rightarrow> response" where
  "ok_response v =
     \<lparr>status_code = 200, body_text = [], raise_for_status = None, json = Inr v\<rparr>"

definition fresh_creds :: creds where
  "fresh_creds =
     \<lparr>token = Some ''ya29.a0'', expired = False, refresh_token = Some ''1//0g'',
      to_json = ''{fresh}''\<rparr>"

definition stale_creds :: creds where
  "stale_creds =
     \<lparr>token = Some ''ya29.old'', expired = True, refresh_token = Some ''1//0g'',
      to_json = ''{stale}''\<rparr>"

definition dead_creds :: creds where
  "dead_creds =
     \<lparr>token = Some ''ya29.old'', expired = True, refresh_token = None,
      to_json = ''{dead}''\<rparr>"

text \<open>
  Libraries that never fail: a saved token loads as \<open>saved\<close>, a refresh and a login both
  give \<open>fresh_creds\<close>, and the calendar answers an insert with \<open>answer\<close>.
\<close>

definition sample_google :: "creds \<Rightarrow> jval \<Rightarrow> google" where
  "sample_google saved answer =
     \<lparr>from_authorized_user_file = (\<lambda>contents. Inr saved),
      refresh = (\<lambda>c. Inr fresh_creds),
      from_client_secrets_file = None,
      run_local_server = Inr fresh_creds,
      write_token = None,
      torn_write = (\<lambda>before. Some []),
      build = (\<lambda>c. Inr (Service c)),
      insert_execute = (\<lambda>s calendar_id body. Inr answer)\<rparr>"


text \<open>
  The two weather services in one: the geocoding answer for a request to the geocoding
  address, the forecast answer for any other request; and a geocoding match.
\<close>

definition weather_service :: "jval \<Rightarrow> jval \<Rightarrow> http" where
  "weather_service geo forecast call =
     Inr (ok_response (if fst call = GEOCODING_URL then geo else forecast))"

definition null_island :: jval where
  "null_island =
     JObj [(''results'',
            JArr [JObj [(''name'', JStr ''Null Island''), (''latitude'', JInt 0),
                        (''longitude'', JInt 0), (''country'', JStr ''Atlantic'')]])]"

section \<open>Properties\<close>

subsection \<open>Calendar tool: the event sent\<close>

lemma sent_events_logged:
  "sent_events (logged c returned w)
     = sent_events w @ (case c of InsertEvent b \<Rightarrow> [b] | _ \<Rightarrow> [])"
  by (simp add: sent_events_def logged_def)

lemma sent_events_token_file:
  "sent_events (w\<lparr>token_file := x\<rparr>) = sent_events w"
  by (simp add: sent_events_def)

lemma sent_events_get_calendar_service:
  "get_calendar_service env w = (w', r) \<Longrightarrow> sent_events w' = sent_events w"
  by (auto simp: get_calendar_service_def load_saved_def renew_def refresh_or_login_def
        login_def save_token_def build_service_def sent_events_logged sent_events_token_file
      split: option.splits sum.splits if_splits prod.splits)

text \<open>
  Claim C10. For every input, the event sent to the calendar carries the input's single
  \<open>timezone\<close> as the \<open>timeZone\<close> of both its \<open>start\<close> and its \<open>end\<close>; an input built
  without a time zone has \<open>Asia/Kolkata\<close>; and the tool sends nothing but this event (it
  sends it once, or not at all when no service is obtained).
\<close>

theorem create_calendar_event_payload:
  "and_then (getitem (event_body input) ''start'') (\<lambda>s. getitem s ''timeZone'')
     = Inr (JStr (timezone input))
   \<and> and_then (getitem (event_body input) ''end'') (\<lambda>s. getitem s ''timeZone'')
     = Inr (JStr (timezone input))
   \<and> timezone (new_CreateEventInput s t0 t1 None) = ''Asia/Kolkata''
   \<and> timezone (new_CreateEventInput s t0 t1 (Some z)) = z
   \<and> (sent_events (fst (create_calendar_event rt env w input)) = sent_events w
      \<or> sent_events (fst (create_calendar_event rt env w input))
          = sent_events w @ [event_body input])"
proof -
  have tz: "and_then (getitem (event_body input) ''start'') (\<lambda>s. getitem s ''timeZone'')
              = Inr (JStr (timezone input))"
           "and_then (getitem (event_body input) ''end'') (\<lambda>s. getitem s ''timeZone'')
              = Inr (JStr (timezone input))"
    by (simp_all add: event_body_def and_then_def)
  have dflt: "timezone (new_CreateEventInput s t0 t1 None) = ''Asia/Kolkata''"
             "timezone (new_CreateEventInput s t0 t1 (Some z)) = z"
    by (simp_all add: new_CreateEventInput_def)
  obtain w1 r where g: "get_calendar_service env w = (w1, r)"
    by (cases "get_calendar_service env w")
  have s1: "sent_events w1 = sent_events w"
    using g by (rule sent_events_get_calendar_service)
  have sent: "sent_events (fst (create_calendar_event rt env w input)) = sent_events w
      \<or> sent_events (fst (create_calendar_event rt env w input))
          = sent_events w @ [event_body input]"
    using g s1
    by (auto simp: create_calendar_event_def create_calendar_event_try_def sent_events_logged
          split: sum.splits prod.splits)
  from tz dflt sent show ?thesis by blast
qed

lemma sample_service_fresh:
  "get_calendar_service (sample_google fresh_creds answer)
       \<lparr>token_file = Some ''{fresh}'', credentials_file = False, trace = []\<rparr>
     = (\<lparr>token_file = Some ''{fresh}'', credentials_file = False,
          trace = [(LoadToken, True), (Build, True)]\<rparr>,
        Inr (Service fresh_creds))"
  by (simp add: get_calendar_service_def load_saved_def build_service_def sample_google_def
        fresh_creds_def valid_def logged_def)

lemma sample_insert_execute:
  "insert_execute (sample_google saved answer) s calendar_id body = Inr answer"
  by (simp add: sample_google_def)

theorem create_calendar_event_payload_witness:
  "sent_events (fst (create_calendar_event sample_rt (sample_google fresh_creds (JObj []))
       \<lparr>token_file = Some ''{fresh}'', credentials_file = False, trace = []\<rparr>
       (new_CreateEventInput ''Team Meeting'' ''2025-12-01T10:00:00''
          ''2025-12-01T11:00:00'' None)))
     = [JObj [(''summary'', JStr ''Team Meeting''),
              (''start'', JObj [(''dateTime'', JStr ''2025-12-01T10:00:00''),
                                (''timeZone'', JStr ''Asia/Kolkata'')]),
              (''end'', JObj [(''dateTime'', JStr ''2025-12-01T11:00:00''),
                              (''timeZone'', JStr ''Asia/Kolkata'')])]]"
proof -
  let ?w = "\<lparr>token_file = Some ''{fresh}'', credentials_file = False, trace = []\<rparr>"
  let ?input = "new_CreateEventInput ''Team Meeting'' ''2025-12-01T10:00:00''
                  ''2025-12-01T11:00:00'' None"
  have sent: "sent_events (fst (create_calendar_event sample_rt
                 (sample_google fresh_creds (JObj [])) ?w ?input)) \<noteq> sent_events ?w"
    by (simp add: create_calendar_event_def create_calendar_event_try_def
          sample_service_fresh sample_insert_execute sent_events_def logged_def
        split: sum.splits)
  from sent create_calendar_event_payload [of ?input "''Team Meeting''"
      "''2025-12-01T10:00:00''" "''2025-12-01T11:00:00''" "''UTC''" sample_rt
      "sample_google fresh_creds (JObj [])" ?w]
  have "sent_events (fst (create_calendar_event sample_rt
          (sample_google fresh_creds (JObj [])) ?w ?input))
        = sent_events ?w @ [event_body ?input]"
    by blast
  then show ?thesis
    by (simp add: sent_events_def event_body_def new_CreateEventInput_def)
qed

subsection \<open>News tool: the request\<close>



subsection \<open>Weather tool: no geocoding result\<close>

text \<open>
  Claim C2. For every city, when the geocoding request is answered (which is after the
  line of line 98 was written), the answer passes \<^verbatim>\<open>raise_for_status\<close> and parses to an
  object whose \<open>results\<close> are missing or empty (any value Python takes for false),
  \<open>get_weather\<close> returns, and does not raise, exactly the two-field error dict with the
  city between quotes in the message, and the geocoding request is the only request it
  issues: there is no forecast call.
\<close>

theorem get_weather_not_found:
  assumes "out (get_weather_called city) = None"
    and "get (geo_call city) = Inr r"
    and "raise_for_status r = None"
    and "json r = Inr geo_data"
    and "dict_get geo_data ''results'' JNull = Inr results"
    and "\<not> truthy results"
  shows "get_weather rt out get city =
           ([geo_call city],
            Inr [(''status'', Str ''error''),
                 (''error_message'',
                  Str (''Sorry, could not find coordinates for '' @ apostrophe @ city
                       @ apostrophe @ ''.''))])"
  using assms
  by (simp add: get_weather_def get_weather_try_def get_json_def and_then_def error_dict_def)

lemma utf8_stdout_nonexistent:
  "utf8_stdout (get_weather_called ''Nonexistent City Xyz123'') = None"
  by (simp add: utf8_stdout_def get_weather_called_def)

theorem get_weather_not_found_witness:
  "get_weather sample_rt utf8_stdout
       (\<lambda>c. Inr (ok_response (JObj [(''generationtime_ms'', JInt 1)])))
       ''Nonexistent City Xyz123'' =
     ([(''https://geocoding-api.open-meteo.com/v1/search'',
        [(''name'', JStr ''Nonexistent City Xyz123''), (''count'', JInt 1),
         (''language'', JStr ''en''), (''format'', JStr ''json'')])],
      Inr [(''status'', Str ''error''),
           (''error_message'',
            Str (''Sorry, could not find coordinates for '' @ [CHR 0x27]
                 @ ''Nonexistent City Xyz123'' @ [CHR 0x27] @ ''.''))])"
  using get_weather_not_found [of utf8_stdout
      "''Nonexistent City Xyz123''"
      "\<lambda>c. Inr (ok_response (JObj [(''generationtime_ms'', JInt 1)]))"
      "ok_response (JObj [(''generationtime_ms'', JInt 1)])"
      "JObj [(''generationtime_ms'', JInt 1)]" JNull sample_rt]
    utf8_stdout_nonexistent
  by (simp add: ok_response_def geo_call_def GEOCODING_URL_def apostrophe_def)

subsection \<open>News tool: no article\<close>

text \<open>
  Claim C7. For every input, when the request is answered, the answer passes
  \<^verbatim>\<open>raise_for_status\<close> and parses to an object whose \<open>articles\<close> are missing or empty (any
  value Python takes for false), the news tool returns a text that starts with \<open>INFO:\<close>
  and does not start with \<open>ERROR:\<close>.
\<close>

theorem news_tool_no_articles:
  assumes "get (fst (news_request input), fst (snd (news_request input))) = Inr r"
    and "raise_for_status r = None"
    and "json r = Inr data"
    and "dict_get data ''articles'' (JArr []) = Inr articles"
    and "\<not> truthy articles"
  shows "prefix ''INFO:'' (snd (news_tool rt get input))
         \<and> \<not> prefix ''ERROR:'' (snd (news_tool rt get input))"
proof -
  obtain api_url params query_desc where req: "news_request input = (api_url, params, query_desc)"
    by (cases "news_request input")
  have "snd (news_tool rt get input) = ''INFO: No news articles found for '' @ query_desc @ ''.''"
    using assms req
    by (simp add: news_tool_def news_result_def and_then_def)
  then show ?thesis by simp
qed

theorem news_tool_no_articles_witness:
  "prefix ''INFO:''
     (snd (news_tool sample_rt (\<lambda>c. Inr (ok_response (JObj [(''articles'', JArr [])])))
             \<lparr>query = ''zzzz'', max_articles = 5\<rparr>))
   \<and> \<not> prefix ''ERROR:''
     (snd (news_tool sample_rt (\<lambda>c. Inr (ok_response (JObj [(''articles'', JArr [])])))
             \<lparr>query = ''zzzz'', max_articles = 5\<rparr>))"
  using news_tool_no_articles [of
      "\<lambda>c. Inr (ok_response (JObj [(''articles'', JArr [])]))"
      "\<lparr>query = ''zzzz'', max_articles = 5\<rparr>"
      "ok_response (JObj [(''articles'', JArr [])])"
      "JObj [(''articles'', JArr [])]" "JArr []" sample_rt]
  by (simp add: ok_response_def)

subsection \<open>Weather tool: the status and the three kinds of failure\<close>

lemma compile_report_status:
  "compile_report rt found_city country latitude longitude forecast_data = Inr result
   \<Longrightarrow> map_of result ''status'' = Some (Str ''success'')"
  by (auto simp: compile_report_def and_then_def split: sum.splits)

lemma get_weather_try_status:
  assumes "get_weather_try rt get city = (calls, Inr result)"
  shows "map_of result ''status'' = Some (Str ''success'')
         \<or> map_of result ''status'' = Some (Str ''error'')"
  using assms
  by (auto simp: get_weather_try_def error_dict_def and_then_def
      split: sum.splits if_splits prod.splits dest: compile_report_status)

lemma weather_error_shape:
  "\<exists>msg. weather_error rt e = [(''status'', Str ''error''), (''error_message'', Str msg)]"
  by (cases e) (simp_all add: error_dict_def)

text \<open>
  Once the line of line 98 is written, \<open>get_weather\<close> returns a dict whose \<open>status\<close> is
  \<open>success\<close> or \<open>error\<close>; when the \<^verbatim>\<open>try\<close> block raises, the dict is the handler's.
\<close>

lemma get_weather_printed_status:
  assumes "out (get_weather_called city) = None"
  shows "\<exists>calls result. get_weather rt out get city = (calls, Inr result)
           \<and> (map_of result ''status'' = Some (Str ''success'')
                \<or> map_of result ''status'' = Some (Str ''error''))"
proof (cases "get_weather_try rt get city")
  case (Pair cs res)
  show ?thesis
  proof (cases res)
    case (Inl x)
    obtain msg where "weather_error rt x = [(''status'', Str ''error''), (''error_message'', Str msg)]"
      using weather_error_shape by blast
    with Pair Inl assms show ?thesis by (simp add: get_weather_def)
  next
    case (Inr result)
    with Pair assms get_weather_try_status [of rt get city cs result]
    show ?thesis by (simp add: get_weather_def)
  qed
qed

lemma get_weather_handled:
  assumes "out (get_weather_called city) = None"
    and "get_weather_try rt get city = (calls, Inl e)"
  shows "get_weather rt out get city = (calls, Inr (weather_error rt e))"
  using assms by (simp add: get_weather_def)

text \<open>
  The messages for an HTTP error, for another request failure and for any other exception
  differ from each other.
\<close>

lemma weather_error_distinct:
  "weather_error rt (HTTPError a) \<noteq> weather_error rt (RequestException b)"
  by (simp add: error_dict_def)

lemma weather_error_other_distinct:
  assumes "\<And>m. e \<noteq> HTTPError m" and "\<And>m. e \<noteq> RequestException m"
  shows "weather_error rt e \<noteq> weather_error rt (HTTPError a)
         \<and> weather_error rt e \<noteq> weather_error rt (RequestException b)"
  using assms by (cases e) (auto simp: error_dict_def)

text \<open>What the \<^verbatim>\<open>print\<close> of line 98 raises, \<open>get_weather\<close> raises, and no request is issued.\<close>

lemma get_weather_print_raises:
  "out (get_weather_called city) = Some e \<Longrightarrow> get_weather rt out get city = ([], Inl e)"
  by (simp add: get_weather_def)

text \<open>
  Claim C9, at a failing input. The claim says that \<open>get_weather\<close> returns a dictionary for
  every input. For the city \<^verbatim>\<open>'\ud800'\<close>, a string of one lone surrogate, and the default
  standard output (UTF-8, strict), the \<^verbatim>\<open>print\<close> of line 98 raises \<^verbatim>\<open>UnicodeEncodeError\<close>
  before the \<^verbatim>\<open>try\<close> block is entered: \<open>get_weather\<close> raises that exception to its caller,
  returns no dictionary and issues no request, whatever the web services would answer.
\<close>

theorem get_weather_raises:
  "get_weather sample_rt utf8_stdout
       (\<lambda>c. Inr (ok_response (JObj [(''generationtime_ms'', JInt 1)])))
       [CHR 0xED, CHR 0xA0, CHR 0x80]
     = ([], Inl UnicodeEncodeError)"
  by (simp add: get_weather_def utf8_stdout_def get_weather_called_def)

subsection \<open>Calendar tool: the returned text\<close>

lemma success_text_start:
  "answers_with_start event \<Longrightarrow> \<exists>s. success_text rt event = Inr (''SUCCESS:'' @ s)"
  by (cases event)
     (auto simp: answers_with_start_def success_text_def and_then_def
        split: option.splits jval.splits)

lemma success_text_no_start:
  "\<not> answers_with_start event \<Longrightarrow> \<exists>e. success_text rt event = Inl e"
  by (cases event)
     (auto simp: answers_with_start_def success_text_def and_then_def
        split: option.splits jval.splits)

text \<open>
  The text \<open>create_calendar_event\<close> returns, by what the libraries do: \<open>ERROR:\<close> when no
  service is obtained or the insert call raises; when the insert call returns, by whether
  line 76 can read \<open>start\<close> in the answer.
\<close>

lemma create_calendar_event_text:
  "(let r = snd (create_calendar_event rt env w input) in
    case get_calendar_service env w of
      (w1, Inl e) \<Rightarrow> prefix ''ERROR:'' r
    | (w1, Inr service) \<Rightarrow>
        (case insert_execute env service ''primary'' (event_body input) of
           Inl e \<Rightarrow> prefix ''ERROR:'' r
         | Inr event \<Rightarrow>
             if answers_with_start event then prefix ''SUCCESS:'' r
             else prefix ''ERROR:'' r))"
proof (cases "get_calendar_service env w")
  case (Pair w1 res)
  show ?thesis
  proof (cases res)
    case (Inl e)
    with Pair show ?thesis
      by (simp add: create_calendar_event_def create_calendar_event_try_def)
  next
    case (Inr service)
    show ?thesis
    proof (cases "insert_execute env service ''primary'' (event_body input)")
      case (Inl e)
      with Pair \<open>res = Inr service\<close> show ?thesis
        by (simp add: create_calendar_event_def create_calendar_event_try_def)
    next
      case ev: (Inr event)
      show ?thesis
      proof (cases "answers_with_start event")
        case True
        then obtain s where "success_text rt event = Inr (''SUCCESS:'' @ s)"
          using success_text_start by blast
        with Pair \<open>res = Inr service\<close> ev True show ?thesis
          by (simp add: create_calendar_event_def create_calendar_event_try_def)
      next
        case False
        then obtain e where "success_text rt event = Inl e"
          using success_text_no_start by blast
        with Pair \<open>res = Inr service\<close> ev False show ?thesis
          by (simp add: create_calendar_event_def create_calendar_event_try_def)
      qed
    qed
  qed
qed

text \<open>
  Claim C1. The calendar answers a successful insert call with the event it created, an
  object whose \<open>start\<close> is an object (the Calendar API's event resource). With such a
  calendar, for every input and whatever else the libraries do, \<open>create_calendar_event\<close>
  returns a text and raises nothing: the text starts with \<open>SUCCESS:\<close> when the insert
  call succeeds, and with \<open>ERROR:\<close> on any failure, that is when no service is obtained
  (a credential failure) or the insert call raises (an HTTP error or any other exception).
\<close>

theorem create_calendar_event_result:
  assumes "\<And>service calendar_id body event.
             insert_execute env service calendar_id body = Inr event
             \<Longrightarrow> answers_with_start event"
  shows "(let r = snd (create_calendar_event rt env w input) in
          case get_calendar_service env w of
            (w1, Inl e) \<Rightarrow> prefix ''ERROR:'' r
          | (w1, Inr service) \<Rightarrow>
              (case insert_execute env service ''primary'' (event_body input) of
                 Inl e \<Rightarrow> prefix ''ERROR:'' r
               | Inr event \<Rightarrow> prefix ''SUCCESS:'' r))"
proof (cases "get_calendar_service env w")
  case (Pair w1 res)
  show ?thesis
  proof (cases res)
    case (Inl e)
    with Pair create_calendar_event_text [of rt env w input] show ?thesis
      by (simp add: Let_def)
  next
    case (Inr service)
    show ?thesis
    proof (cases "insert_execute env service ''primary'' (event_body input)")
      case (Inl e)
      with Pair \<open>res = Inr service\<close> create_calendar_event_text [of rt env w input]
      show ?thesis by (simp add: Let_def)
    next
      case ev: (Inr event)
      from assms [OF ev] have "answers_with_start event" .
      with Pair \<open>res = Inr service\<close> ev create_calendar_event_text [of rt env w input]
      show ?thesis by (simp add: Let_def)
    qed
  qed
qed

theorem create_calendar_event_result_witness:
  "prefix ''SUCCESS:''
     (snd (create_calendar_event sample_rt
        (sample_google fresh_creds
           (JObj [(''summary'', JStr ''Team Meeting''),
                  (''start'', JObj [(''dateTime'', JStr ''2025-12-01T10:00:00+05:30'')]),
                  (''htmlLink'', JStr ''https://calendar.example/e1'')]))
        \<lparr>token_file = Some ''{fresh}'', credentials_file = False, trace = []\<rparr>
        (new_CreateEventInput ''Team Meeting'' ''2025-12-01T10:00:00''
           ''2025-12-01T11:00:00'' None)))"
proof -
  let ?answer = "JObj [(''summary'', JStr ''Team Meeting''),
                  (''start'', JObj [(''dateTime'', JStr ''2025-12-01T10:00:00+05:30'')]),
                  (''htmlLink'', JStr ''https://calendar.example/e1'')]"
  have contract: "\<And>service calendar_id body event.
      insert_execute (sample_google fresh_creds ?answer) service calendar_id body = Inr event
      \<Longrightarrow> answers_with_start event"
    by (auto simp: sample_google_def answers_with_start_def)
  note t = create_calendar_event_result [where env = "sample_google fresh_creds ?answer"
      and rt = sample_rt
      and w = "\<lparr>token_file = Some ''{fresh}'', credentials_file = False, trace = []\<rparr>"
      and input = "new_CreateEventInput ''Team Meeting'' ''2025-12-01T10:00:00''
         ''2025-12-01T11:00:00'' None"]
  from t [OF contract]
  show ?thesis
    by (simp add: sample_service_fresh sample_insert_execute)
qed

subsection \<open>Credential store: where the missing client secret comes from\<close>

lemma credentials_file_logged [simp]: "credentials_file (logged c b w) = credentials_file w"
  by (simp add: logged_def)

lemma token_file_logged [simp]: "token_file (logged c b w) = token_file w"
  by (simp add: logged_def)

lemma trace_logged [simp]: "trace (logged c b w) = trace w @ [(c, b)]"
  by (simp add: logged_def)

lemma login_missing:
  assumes "from_client_secrets_file env \<noteq> Some missing_client_secret"
    and "run_local_server env \<noteq> Inl missing_client_secret"
  shows "snd (login env w) = Inl missing_client_secret \<longleftrightarrow> \<not> credentials_file w"
  using assms by (auto simp: login_def split: option.split sum.split)

lemma refresh_or_login_missing:
  assumes "\<And>c. refresh env c \<noteq> Inl missing_client_secret"
    and "from_client_secrets_file env \<noteq> Some missing_client_secret"
    and "run_local_server env \<noteq> Inl missing_client_secret"
  shows "snd (refresh_or_login env w saved) = Inl missing_client_secret
         \<longleftrightarrow> \<not> credentials_file w
             \<and> (case saved of None \<Rightarrow> True
                 | Some c \<Rightarrow> \<not> (expired c \<and> has_refresh_token c))"
proof (cases saved)
  case None
  then show ?thesis
    using login_missing [OF assms(2,3)] by (simp add: refresh_or_login_def)
next
  case (Some c)
  show ?thesis
  proof (cases "expired c \<and> has_refresh_token c")
    case True
    with Some assms(1) [of c] show ?thesis
      by (auto simp: refresh_or_login_def split: sum.split)
  next
    case False
    with Some login_missing [OF assms(2,3)] show ?thesis
      by (auto simp: refresh_or_login_def)
  qed
qed

lemma save_token_missing:
  assumes "write_token env \<noteq> Some missing_client_secret"
  shows "snd (save_token env w c) \<noteq> Inl missing_client_secret"
  using assms by (auto simp: save_token_def split: option.split)

lemma renew_missing:
  assumes "\<And>c. refresh env c \<noteq> Inl missing_client_secret"
    and "from_client_secrets_file env \<noteq> Some missing_client_secret"
    and "run_local_server env \<noteq> Inl missing_client_secret"
    and "write_token env \<noteq> Some missing_client_secret"
  shows "snd (renew env w saved) = Inl missing_client_secret
         \<longleftrightarrow> \<not> credentials_file w
             \<and> (case saved of None \<Rightarrow> True
                 | Some c \<Rightarrow> \<not> (expired c \<and> has_refresh_token c))"
proof (cases "refresh_or_login env w saved")
  case (Pair w1 r)
  show ?thesis
  proof (cases r)
    case (Inl e)
    with Pair refresh_or_login_missing [OF assms(1-3), of w saved] show ?thesis
      by (simp add: renew_def)
  next
    case (Inr c)
    with Pair refresh_or_login_missing [OF assms(1-3), of w saved]
      save_token_missing [OF assms(4), of w1 c] show ?thesis
      by (simp add: renew_def)
  qed
qed

lemma build_service_missing:
  assumes "\<And>c. build env c \<noteq> Inl missing_client_secret"
  shows "snd (build_service env w c) \<noteq> Inl missing_client_secret"
  using assms [of c] by (auto simp: build_service_def split: sum.split)

lemma renew_then_build_missing:
  assumes "\<And>c. refresh env c \<noteq> Inl missing_client_secret"
    and "from_client_secrets_file env \<noteq> Some missing_client_secret"
    and "run_local_server env \<noteq> Inl missing_client_secret"
    and "write_token env \<noteq> Some missing_client_secret"
    and "\<And>c. build env c \<noteq> Inl missing_client_secret"
  shows "snd (case renew env w saved of
                (w2, Inl e) \<Rightarrow> (w2, Inl e)
              | (w2, Inr c) \<Rightarrow> build_service env w2 c) = Inl missing_client_secret
         \<longleftrightarrow> \<not> credentials_file w
             \<and> (case saved of None \<Rightarrow> True
                 | Some c \<Rightarrow> \<not> (expired c \<and> has_refresh_token c))"
proof (cases "renew env w saved")
  case (Pair w2 r)
  show ?thesis
  proof (cases r)
    case (Inl e)
    with Pair renew_missing [OF assms(1-4), of w saved] show ?thesis by simp
  next
    case (Inr c)
    with Pair renew_missing [OF assms(1-4), of w saved]
      build_service_missing [OF assms(5), of w2 c] show ?thesis by simp
  qed
qed

lemma get_calendar_service_missing:
  assumes "\<And>contents. from_authorized_user_file env contents \<noteq> Inl missing_client_secret"
    and "\<And>c. refresh env c \<noteq> Inl missing_client_secret"
    and "from_client_secrets_file env \<noteq> Some missing_client_secret"
    and "run_local_server env \<noteq> Inl missing_client_secret"
    and "write_token env \<noteq> Some missing_client_secret"
    and "\<And>c. build env c \<noteq> Inl missing_client_secret"
  shows "snd (get_calendar_service env w) = Inl missing_client_secret
         \<longleftrightarrow> \<not> credentials_file w \<and> login_needed env w"
proof (cases "token_file w")
  case None
  with renew_then_build_missing [OF assms(2-6), of w None] show ?thesis
    by (simp add: get_calendar_service_def load_saved_def login_needed_def)
next
  case (Some contents)
  show ?thesis
  proof (cases "from_authorized_user_file env contents")
    case (Inl e)
    with Some assms(1) [of contents] show ?thesis
      by (simp add: get_calendar_service_def load_saved_def login_needed_def)
  next
    case (Inr c)
    show ?thesis
    proof (cases "valid c")
      case True
      with Some Inr build_service_missing [OF assms(6), of "logged LoadToken True w" c]
      show ?thesis
        by (simp add: get_calendar_service_def load_saved_def login_needed_def)
    next
      case False
      with Some Inr
        renew_then_build_missing [OF assms(2-6), of "logged LoadToken True w" "Some c"]
      show ?thesis
        by (simp add: get_calendar_service_def load_saved_def login_needed_def)
    qed
  qed
qed

lemma get_calendar_service_cached:
  assumes "token_file w = Some contents"
    and "from_authorized_user_file env contents = Inr c"
    and "valid c"
  shows "get_calendar_service env w
         = build_service env (logged LoadToken True w) c"
  using assms by (simp add: get_calendar_service_def load_saved_def)

text \<open>
  Claim C5, amended. Provided no library call itself raises the missing-client-secret
  error, \<open>get_calendar_service\<close> raises it exactly when the client-secret file is absent
  and a login is needed: there is no token file, or the saved token is neither valid nor
  refreshable (it has not expired, or it has no refresh token). With a saved token that
  is valid, it makes no refresh and no login, leaves the token file as it is and returns
  what \<open>build\<close> returns for that token.
\<close>

theorem get_calendar_service_missing_secret:
  assumes "\<And>contents. from_authorized_user_file env contents \<noteq> Inl missing_client_secret"
    and "\<And>c. refresh env c \<noteq> Inl missing_client_secret"
    and "from_client_secrets_file env \<noteq> Some missing_client_secret"
    and "run_local_server env \<noteq> Inl missing_client_secret"
    and "write_token env \<noteq> Some missing_client_secret"
    and "\<And>c. build env c \<noteq> Inl missing_client_secret"
  shows "(snd (get_calendar_service env w) = Inl missing_client_secret
            \<longleftrightarrow> \<not> credentials_file w \<and> login_needed env w)
         \<and> (token_file w = Some contents
              \<and> from_authorized_user_file env contents = Inr c \<and> valid c
            \<longrightarrow> snd (get_calendar_service env w) = build env c
                \<and> token_file (fst (get_calendar_service env w)) = token_file w
                \<and> trace (fst (get_calendar_service env w))
                    = trace w @ [(LoadToken, True), (Build, \<not> isl (build env c))])"
proof -
  have cached: "token_file w = Some contents
              \<and> from_authorized_user_file env contents = Inr c \<and> valid c
            \<longrightarrow> snd (get_calendar_service env w) = build env c
                \<and> token_file (fst (get_calendar_service env w)) = token_file w
                \<and> trace (fst (get_calendar_service env w))
                    = trace w @ [(LoadToken, True), (Build, \<not> isl (build env c))]"
    by (auto simp: get_calendar_service_cached build_service_def split: sum.split)
  from get_calendar_service_missing [OF assms, of w] cached show ?thesis by blast
qed

theorem get_calendar_service_missing_secret_witness:
  "snd (get_calendar_service (sample_google fresh_creds JNull)
          \<lparr>token_file = None, credentials_file = False, trace = []\<rparr>)
     = Inl (FileNotFoundError
         ''Missing my_agent/credentials.json. Please download it from Google Cloud Console.'')
   \<and> snd (get_calendar_service (sample_google fresh_creds JNull)
          \<lparr>token_file = Some ''{fresh}'', credentials_file = False, trace = []\<rparr>)
     = Inr (Service fresh_creds)"
proof -
  let ?env = "sample_google fresh_creds JNull"
  have a: "\<And>contents. from_authorized_user_file ?env contents \<noteq> Inl missing_client_secret"
          "\<And>c. refresh ?env c \<noteq> Inl missing_client_secret"
          "from_client_secrets_file ?env \<noteq> Some missing_client_secret"
          "run_local_server ?env \<noteq> Inl missing_client_secret"
          "write_token ?env \<noteq> Some missing_client_secret"
          "\<And>c. build ?env c \<noteq> Inl missing_client_secret"
    by (simp_all add: sample_google_def)
  have n: "\<not> credentials_file \<lparr>token_file = None, credentials_file = False, trace = []\<rparr>
           \<and> login_needed ?env \<lparr>token_file = None, credentials_file = False, trace = []\<rparr>"
    by (simp add: login_needed_def)
  have v: "from_authorized_user_file ?env ''{fresh}'' = Inr fresh_creds \<and> valid fresh_creds"
    by (simp add: sample_google_def valid_def fresh_creds_def)
  have b: "build ?env fresh_creds = Inr (Service fresh_creds)"
    by (simp add: sample_google_def)
  from get_calendar_service_missing_secret [OF a,
      of "\<lparr>token_file = None, credentials_file = False, trace = []\<rparr>" "''x''" fresh_creds] n
  have 1: "snd (get_calendar_service ?env
             \<lparr>token_file = None, credentials_file = False, trace = []\<rparr>)
           = Inl missing_client_secret"
    by blast
  from get_calendar_service_missing_secret [OF a,
      of "\<lparr>token_file = Some ''{fresh}'', credentials_file = False, trace = []\<rparr>"
         "''{fresh}''" fresh_creds] v b
  have 2: "snd (get_calendar_service ?env
             \<lparr>token_file = Some ''{fresh}'', credentials_file = False, trace = []\<rparr>)
           = Inr (Service fresh_creds)"
    by simp
  from 1 2 show ?thesis
    by (simp add: missing_client_secret_def CREDENTIALS_FILE_def)
qed

text \<open>
  The claim as stated fails: a token file exists, its token has expired and has no
  refresh token, the client-secret file is absent, and the error is raised although a
  cached token exists.
\<close>

theorem get_calendar_service_counterexample:
  "token_file \<lparr>token_file = Some ''{dead}'', credentials_file = False, trace = []\<rparr>
     = Some ''{dead}''
   \<and> from_authorized_user_file (sample_google dead_creds JNull) ''{dead}'' = Inr dead_creds
   \<and> get_calendar_service (sample_google dead_creds JNull)
       \<lparr>token_file = Some ''{dead}'', credentials_file = False, trace = []\<rparr>
     = (\<lparr>token_file = Some ''{dead}'', credentials_file = False,
          trace = [(LoadToken, True)]\<rparr>,
        Inl (FileNotFoundError
          ''Missing my_agent/credentials.json. Please download it from Google Cloud Console.''))"
  by (simp add: get_calendar_service_def load_saved_def renew_def refresh_or_login_def
        login_def sample_google_def dead_creds_def valid_def has_refresh_token_def logged_def
        missing_client_secret_def CREDENTIALS_FILE_def)

subsection \<open>Credential store: when the token file is written\<close>

lemma login_calls:
  assumes "login env w = (w1, r)"
  shows "\<exists>new. trace w1 = trace w @ new \<and> token_file w1 = token_file w
           \<and> credentials_file w1 = credentials_file w
           \<and> set new \<subseteq> {(ReadClientSecrets, True), (ReadClientSecrets, False),
                          (RunLocalServer, True), (RunLocalServer, False)}
           \<and> ((RunLocalServer, True) \<in> set new \<longleftrightarrow> (\<exists>c. r = Inr c))
           \<and> (\<forall>c. r = Inr c \<longrightarrow> run_local_server env = Inr c)"
proof -
  consider (absent) "\<not> credentials_file w"
    | (unread) e where "credentials_file w" "from_client_secrets_file env = Some e"
    | (refused) e where "credentials_file w" "from_client_secrets_file env = None"
        "run_local_server env = Inl e"
    | (granted) c where "credentials_file w" "from_client_secrets_file env = None"
        "run_local_server env = Inr c"
    by (cases "credentials_file w"; cases "from_client_secrets_file env";
        cases "run_local_server env") auto
  then show ?thesis
  proof cases
    case absent
    with assms [symmetric] have "w1 = w" "r = Inl missing_client_secret"
      by (simp_all add: login_def)
    then show ?thesis by (intro exI [of _ "[]"]) simp
  next
    case unread
    with assms [symmetric] have "w1 = logged ReadClientSecrets False w" "r = Inl e"
      by (simp_all add: login_def)
    then show ?thesis by (intro exI [of _ "[(ReadClientSecrets, False)]"]) simp
  next
    case refused
    with assms [symmetric]
    have "w1 = logged RunLocalServer False (logged ReadClientSecrets True w)" "r = Inl e"
      by (simp_all add: login_def)
    then show ?thesis
      by (intro exI [of _ "[(ReadClientSecrets, True), (RunLocalServer, False)]"]) simp
  next
    case granted
    with assms [symmetric]
    have "w1 = logged RunLocalServer True (logged ReadClientSecrets True w)" "r = Inr c"
      by (simp_all add: login_def)
    with granted show ?thesis
      by (intro exI [of _ "[(ReadClientSecrets, True), (RunLocalServer, True)]"]) simp
  qed
qed

lemma refresh_or_login_calls:
  assumes "refresh_or_login env w saved = (w1, r)"
  shows "\<exists>new. trace w1 = trace w @ new \<and> token_file w1 = token_file w
           \<and> credentials_file w1 = credentials_file w
           \<and> set new \<subseteq> {(ReadClientSecrets, True), (ReadClientSecrets, False),
                          (RunLocalServer, True), (RunLocalServer, False),
                          (Refresh, True), (Refresh, False)}
           \<and> ((Refresh, True) \<in> set new \<or> (RunLocalServer, True) \<in> set new
                \<longleftrightarrow> (\<exists>c. r = Inr c))
           \<and> (\<forall>c. saved = Some c \<and> expired c \<and> has_refresh_token c
                \<longrightarrow> r = refresh env c
                    \<and> (\<forall>b. (ReadClientSecrets, b) \<notin> set new \<and> (RunLocalServer, b) \<notin> set new))"
proof (cases "\<exists>c. saved = Some c \<and> expired c \<and> has_refresh_token c")
  case True
  then obtain c where c: "saved = Some c" "expired c" "has_refresh_token c" by blast
  show ?thesis
  proof (cases "refresh env c")
    case (Inl e)
    with c assms [symmetric] have "w1 = logged Refresh False w" "r = Inl e"
      by (simp_all add: refresh_or_login_def)
    with c Inl show ?thesis by (intro exI [of _ "[(Refresh, False)]"]) simp
  next
    case (Inr c')
    with c assms [symmetric] have "w1 = logged Refresh True w" "r = Inr c'"
      by (simp_all add: refresh_or_login_def)
    with c Inr show ?thesis by (intro exI [of _ "[(Refresh, True)]"]) simp
  qed
next
  case False
  with assms have "login env w = (w1, r)"
    by (auto simp: refresh_or_login_def split: option.splits if_splits)
  from login_calls [OF this] obtain new where new: "trace w1 = trace w @ new"
      "token_file w1 = token_file w" "credentials_file w1 = credentials_file w"
      "set new \<subseteq> {(ReadClientSecrets, True), (ReadClientSecrets, False),
                          (RunLocalServer, True), (RunLocalServer, False)}"
      "(RunLocalServer, True) \<in> set new \<longleftrightarrow> (\<exists>c. r = Inr c)"
    by blast
  from new(4) have "(Refresh, True) \<notin> set new" by auto
  with new False show ?thesis
    by (intro exI [of _ new]) auto
qed

lemma renew_calls:
  assumes "renew env w saved = (w1, r)"
  shows "\<exists>new. trace w1 = trace w @ new
           \<and> credentials_file w1 = credentials_file w
           \<and> (\<forall>b. (LoadToken, b) \<notin> set new \<and> (Build, b) \<notin> set new)
           \<and> ((\<exists>s b. (WriteToken s, b) \<in> set new)
                \<longleftrightarrow> (Refresh, True) \<in> set new \<or> (RunLocalServer, True) \<in> set new)
           \<and> (\<forall>s. (WriteToken s, True) \<in> set new \<longrightarrow> token_file w1 = Some s)
           \<and> ((\<forall>s b. (WriteToken s, b) \<notin> set new) \<longrightarrow> token_file w1 = token_file w)
           \<and> (\<forall>c c'. saved = Some c \<and> expired c \<and> has_refresh_token c
                       \<and> refresh env c = Inr c'
                \<longrightarrow> (\<forall>b. (ReadClientSecrets, b) \<notin> set new \<and> (RunLocalServer, b) \<notin> set new)
                    \<and> (Refresh, True) \<in> set new
                    \<and> (WriteToken (to_json c'), write_token env = None) \<in> set new)"
proof (cases "refresh_or_login env w saved")
  case (Pair w0 r0)
  from refresh_or_login_calls [OF Pair] obtain new where new: "trace w0 = trace w @ new"
      "token_file w0 = token_file w" "credentials_file w0 = credentials_file w"
      "set new \<subseteq> {(ReadClientSecrets, True), (ReadClientSecrets, False),
                          (RunLocalServer, True), (RunLocalServer, False),
                          (Refresh, True), (Refresh, False)}"
      "(Refresh, True) \<in> set new \<or> (RunLocalServer, True) \<in> set new
                \<longleftrightarrow> (\<exists>c. r0 = Inr c)"
      "\<forall>c. saved = Some c \<and> expired c \<and> has_refresh_token c
                \<longrightarrow> r0 = refresh env c
                    \<and> (\<forall>b. (ReadClientSecrets, b) \<notin> set new \<and> (RunLocalServer, b) \<notin> set new)"
    by blast
  from new(4) have plain: "\<forall>b. (LoadToken, b) \<notin> set new \<and> (Build, b) \<notin> set new"
      "\<forall>s b. (WriteToken s, b) \<notin> set new"
    by auto
  show ?thesis
  proof (cases r0)
    case (Inl e)
    with assms Pair have "w1 = w0" by (simp add: renew_def)
    with new plain Inl show ?thesis
      by (intro exI [of _ new]) auto
  next
    case (Inr c1)
    with assms Pair have s: "save_token env w0 c1 = (w1, r)" by (simp add: renew_def)
    show ?thesis
    proof (cases "write_token env")
      case None
      with s new plain Inr show ?thesis
        by (intro exI [of _ "new @ [(WriteToken (to_json c1), True)]"])
           (auto simp: save_token_def)
    next
      case (Some e)
      with s new plain Inr show ?thesis
        by (intro exI [of _ "new @ [(WriteToken (to_json c1), False)]"])
           (auto simp: save_token_def)
    qed
  qed
qed

lemma renew_build_calls:
  assumes "(case renew env w saved of
              (w2, Inl e) \<Rightarrow> (w2, Inl e)
            | (w2, Inr c) \<Rightarrow> build_service env w2 c) = (w1, r)"
  shows "\<exists>new. trace w1 = trace w @ new
           \<and> (\<forall>b. (LoadToken, b) \<notin> set new)
           \<and> ((\<exists>s b. (WriteToken s, b) \<in> set new)
                \<longleftrightarrow> (Refresh, True) \<in> set new \<or> (RunLocalServer, True) \<in> set new)
           \<and> (\<forall>s. (WriteToken s, True) \<in> set new \<longrightarrow> token_file w1 = Some s)
           \<and> ((\<forall>s b. (WriteToken s, b) \<notin> set new) \<longrightarrow> token_file w1 = token_file w)
           \<and> (\<forall>c c'. saved = Some c \<and> expired c \<and> has_refresh_token c
                       \<and> refresh env c = Inr c'
                \<longrightarrow> (\<forall>b. (ReadClientSecrets, b) \<notin> set new \<and> (RunLocalServer, b) \<notin> set new)
                    \<and> (Refresh, True) \<in> set new
                    \<and> (WriteToken (to_json c'), write_token env = None) \<in> set new)"
proof (cases "renew env w saved")
  case (Pair w2 r2)
  from renew_calls [OF Pair] obtain new where new: "trace w2 = trace w @ new"
      "\<forall>b. (LoadToken, b) \<notin> set new \<and> (Build, b) \<notin> set new"
      "(\<exists>s b. (WriteToken s, b) \<in> set new)
                \<longleftrightarrow> (Refresh, True) \<in> set new \<or> (RunLocalServer, True) \<in> set new"
      "\<forall>s. (WriteToken s, True) \<in> set new \<longrightarrow> token_file w2 = Some s"
      "(\<forall>s b. (WriteToken s, b) \<notin> set new) \<longrightarrow> token_file w2 = token_file w"
      "\<forall>c c'. saved = Some c \<and> expired c \<and> has_refresh_token c
                       \<and> refresh env c = Inr c'
                \<longrightarrow> (\<forall>b. (ReadClientSecrets, b) \<notin> set new \<and> (RunLocalServer, b) \<notin> set new)
                    \<and> (Refresh, True) \<in> set new
                    \<and> (WriteToken (to_json c'), write_token env = None) \<in> set new"
    by blast
  show ?thesis
  proof (cases r2)
    case (Inl e)
    with assms [symmetric] Pair have "w1 = w2" by simp
    with new show ?thesis by (intro exI [of _ new]) simp
  next
    case (Inr c2)
    show ?thesis
    proof (cases "build env c2")
      case built: (Inl e)
      with assms [symmetric] Pair Inr have "w1 = logged Build False w2"
        by (simp add: build_service_def)
      with new show ?thesis by (intro exI [of _ "new @ [(Build, False)]"]) simp
    next
      case built: (Inr service)
      with assms [symmetric] Pair Inr have "w1 = logged Build True w2"
        by (simp add: build_service_def)
      with new show ?thesis by (intro exI [of _ "new @ [(Build, True)]"]) simp
    qed
  qed
qed

text \<open>
  Claim C8. Of the calls \<open>get_calendar_service\<close> makes, one writes the token file exactly
  when a refresh or an interactive login was performed, that is returned; a write that
  returns leaves the written text as the contents of the file, whatever it held before,
  and with no write the file is as it was. When the token loaded from the file is valid,
  there is no write and the file is unchanged. When the loaded token has expired and has
  a refresh token, and the refresh returns, neither the client secrets are read nor the
  local server run (no interactive flow), the refreshed credential is what is written,
  and when the write returns the file holds it.
\<close>

theorem get_calendar_service_token_file:
  assumes "get_calendar_service env w = (w', res)"
  shows "\<exists>new. trace w' = trace w @ new
           \<and> ((\<exists>s b. (WriteToken s, b) \<in> set new)
                \<longleftrightarrow> (Refresh, True) \<in> set new \<or> (RunLocalServer, True) \<in> set new)
           \<and> (\<forall>s. (WriteToken s, True) \<in> set new \<longrightarrow> token_file w' = Some s)
           \<and> ((\<forall>s b. (WriteToken s, b) \<notin> set new) \<longrightarrow> token_file w' = token_file w)
           \<and> (\<forall>contents c. token_file w = Some contents
                  \<and> from_authorized_user_file env contents = Inr c \<and> valid c
                \<longrightarrow> token_file w' = token_file w \<and> (\<forall>s b. (WriteToken s, b) \<notin> set new))
           \<and> (\<forall>contents c c'. token_file w = Some contents
                  \<and> from_authorized_user_file env contents = Inr c
                  \<and> expired c \<and> has_refresh_token c \<and> refresh env c = Inr c'
                \<longrightarrow> (\<forall>b. (ReadClientSecrets, b) \<notin> set new \<and> (RunLocalServer, b) \<notin> set new)
                    \<and> (Refresh, True) \<in> set new
                    \<and> (WriteToken (to_json c'), write_token env = None) \<in> set new
                    \<and> (write_token env = None \<longrightarrow> token_file w' = Some (to_json c')))"
proof (cases "token_file w")
  case None
  with assms have "(case renew env w None of
              (w2, Inl e) \<Rightarrow> (w2, Inl e)
            | (w2, Inr c) \<Rightarrow> build_service env w2 c) = (w', res)"
    by (simp add: get_calendar_service_def load_saved_def)
  from renew_build_calls [OF this] obtain new where new: "trace w' = trace w @ new"
      "(\<exists>s b. (WriteToken s, b) \<in> set new)
                \<longleftrightarrow> (Refresh, True) \<in> set new \<or> (RunLocalServer, True) \<in> set new"
      "\<forall>s. (WriteToken s, True) \<in> set new \<longrightarrow> token_file w' = Some s"
      "(\<forall>s b. (WriteToken s, b) \<notin> set new) \<longrightarrow> token_file w' = token_file w"
    by blast
  with None show ?thesis by (intro exI [of _ new]) simp
next
  case (Some contents)
  show ?thesis
  proof (cases "from_authorized_user_file env contents")
    case (Inl e)
    with Some assms [symmetric] have "w' = logged LoadToken False w"
      by (simp add: get_calendar_service_def load_saved_def)
    with Some Inl show ?thesis by (intro exI [of _ "[(LoadToken, False)]"]) simp
  next
    case (Inr c)
    show ?thesis
    proof (cases "valid c")
      case True
      then have fresh: "\<not> expired c" by (simp add: valid_def)
      show ?thesis
      proof (cases "build env c")
        case built: (Inl e)
        with Some Inr True assms [symmetric]
        have "w' = logged Build False (logged LoadToken True w)"
          by (simp add: get_calendar_service_def load_saved_def build_service_def)
        with Some Inr fresh show ?thesis
          by (intro exI [of _ "[(LoadToken, True), (Build, False)]"]) simp
      next
        case built: (Inr service)
        with Some Inr True assms [symmetric]
        have "w' = logged Build True (logged LoadToken True w)"
          by (simp add: get_calendar_service_def load_saved_def build_service_def)
        with Some Inr fresh show ?thesis
          by (intro exI [of _ "[(LoadToken, True), (Build, True)]"]) simp
      qed
    next
      case False
      with Some Inr assms
      have "(case renew env (logged LoadToken True w) (Some c) of
              (w2, Inl e) \<Rightarrow> (w2, Inl e)
            | (w2, Inr c) \<Rightarrow> build_service env w2 c) = (w', res)"
        by (simp add: get_calendar_service_def load_saved_def)
      from renew_build_calls [OF this] obtain new
        where new: "trace w' = trace (logged LoadToken True w) @ new"
          "\<forall>b. (LoadToken, b) \<notin> set new"
          "(\<exists>s b. (WriteToken s, b) \<in> set new)
                \<longleftrightarrow> (Refresh, True) \<in> set new \<or> (RunLocalServer, True) \<in> set new"
          "\<forall>s. (WriteToken s, True) \<in> set new \<longrightarrow> token_file w' = Some s"
          "(\<forall>s b. (WriteToken s, b) \<notin> set new)
             \<longrightarrow> token_file w' = token_file (logged LoadToken True w)"
          "\<forall>c0 c'. Some c = Some c0 \<and> expired c0 \<and> has_refresh_token c0
                       \<and> refresh env c0 = Inr c'
                \<longrightarrow> (\<forall>b. (ReadClientSecrets, b) \<notin> set new \<and> (RunLocalServer, b) \<notin> set new)
                    \<and> (Refresh, True) \<in> set new
                    \<and> (WriteToken (to_json c'), write_token env = None) \<in> set new"
        by blast
      from new(6) have refreshed: "\<forall>c'. expired c \<and> has_refresh_token c \<and> refresh env c = Inr c'
                \<longrightarrow> (\<forall>b. (ReadClientSecrets, b) \<notin> set new \<and> (RunLocalServer, b) \<notin> set new)
                    \<and> (Refresh, True) \<in> set new
                    \<and> (WriteToken (to_json c'), write_token env = None) \<in> set new"
        by simp
      from new(1-5) refreshed Some Inr False show ?thesis
        by (intro exI [of _ "(LoadToken, True) # new"]) auto
    qed
  qed
qed

theorem get_calendar_service_token_file_witness:
  "token_file (fst (get_calendar_service (sample_google stale_creds JNull)
       \<lparr>token_file = Some ''{stale}'', credentials_file = False, trace = []\<rparr>))
     = Some ''{fresh}''
   \<and> trace (fst (get_calendar_service (sample_google stale_creds JNull)
       \<lparr>token_file = Some ''{stale}'', credentials_file = False, trace = []\<rparr>))
     = [(LoadToken, True), (Refresh, True), (WriteToken ''{fresh}'', True), (Build, True)]"
proof -
  let ?env = "sample_google stale_creds JNull"
  let ?w = "\<lparr>token_file = Some ''{stale}'', credentials_file = False, trace = []\<rparr>"
  let ?w' = "\<lparr>token_file = Some ''{fresh}'', credentials_file = False,
               trace = [(LoadToken, True), (Refresh, True), (WriteToken ''{fresh}'', True),
                        (Build, True)]\<rparr>"
  have run: "get_calendar_service ?env ?w = (?w', Inr (Service fresh_creds))"
    by (simp add: get_calendar_service_def load_saved_def renew_def refresh_or_login_def
          save_token_def build_service_def sample_google_def stale_creds_def fresh_creds_def
          valid_def has_refresh_token_def logged_def)
  have loaded: "token_file ?w = Some ''{stale}''
      \<and> from_authorized_user_file ?env ''{stale}'' = Inr stale_creds
      \<and> expired stale_creds \<and> has_refresh_token stale_creds
      \<and> refresh ?env stale_creds = Inr fresh_creds \<and> write_token ?env = None"
    by (simp add: sample_google_def stale_creds_def has_refresh_token_def)
  from get_calendar_service_token_file [OF run] obtain new
    where "\<forall>contents c c'. token_file ?w = Some contents
                  \<and> from_authorized_user_file ?env contents = Inr c
                  \<and> expired c \<and> has_refresh_token c \<and> refresh ?env c = Inr c'
                \<longrightarrow> (write_token ?env = None \<longrightarrow> token_file ?w' = Some (to_json c'))"
    by blast
  with loaded have "token_file ?w' = Some (to_json fresh_creds)" by blast
  with run show ?thesis by (simp add: fresh_creds_def)
qed

subsection \<open>News tool: how many articles\<close>









subsection \<open>Weather tool: the series of a successful call\<close>

lemma py_len_iter: "py_iter v = Inr items \<Longrightarrow> py_len v = Inr (length items)"
  by (cases v) auto

lemma py_cmp_numbers:
  "num_of x = Some a \<Longrightarrow> num_of y = Some b \<Longrightarrow> py_cmp op x y = Inr (fl_cmp op a b)"
  by (cases x; cases y) simp_all

lemma fl_lt_trans: "fl_lt a b \<Longrightarrow> fl_lt b c \<Longrightarrow> fl_lt a c"
  by (cases a; cases b; cases c) auto

lemma fl_lt_le_trans:
  "fl_lt a b \<Longrightarrow> \<not> fl_lt c b \<Longrightarrow> a \<noteq> NaN \<Longrightarrow> b \<noteq> NaN \<Longrightarrow> c \<noteq> NaN \<Longrightarrow> fl_lt a c"
  by (cases a; cases b; cases c) auto

lemma best_from_member: "best_from op m xs = Inr r \<Longrightarrow> r \<in> set (m # xs)"
proof (induction xs arbitrary: m)
  case Nil
  then show ?case by simp
next
  case (Cons x xs)
  then show ?case
    by (cases "py_cmp op x m") (auto simp: and_then_def split: if_splits)
qed

lemma best_from_Lt_below:
  assumes "\<forall>x \<in> set (m # xs). \<exists>f. num_of x = Some f"
    and "best_from Lt m xs = Inr r"
  shows "\<not> fl_lt (the (num_of m)) (the (num_of r))"
  using assms
proof (induction xs arbitrary: m)
  case Nil
  then show ?case by (cases "the (num_of m)") auto
next
  case (Cons x xs)
  from Cons.prems(1) obtain fx fm where f: "num_of x = Some fx" "num_of m = Some fm"
    by auto
  then have cmp: "py_cmp Lt x m = Inr (fl_lt fx fm)"
    by (simp add: py_cmp_numbers)
  show ?case
  proof (cases "fl_lt fx fm")
    case True
    with Cons.prems cmp have "best_from Lt x xs = Inr r" by (simp add: and_then_def)
    with Cons.IH [of x] Cons.prems(1) have "\<not> fl_lt fx (the (num_of r))"
      using f by simp
    with True f show ?thesis using fl_lt_trans by auto
  next
    case False
    with Cons.prems cmp have "best_from Lt m xs = Inr r" by (simp add: and_then_def)
    with Cons.IH [of m] Cons.prems(1) show ?thesis by simp
  qed
qed

lemma best_from_Gt_above:
  assumes "\<forall>x \<in> set (m # xs). \<exists>f. num_of x = Some f"
    and "best_from Gt m xs = Inr r"
  shows "\<not> fl_lt (the (num_of r)) (the (num_of m))"
  using assms
proof (induction xs arbitrary: m)
  case Nil
  then show ?case by (cases "the (num_of m)") auto
next
  case (Cons x xs)
  from Cons.prems(1) obtain fx fm where f: "num_of x = Some fx" "num_of m = Some fm"
    by auto
  then have cmp: "py_cmp Gt x m = Inr (fl_lt fm fx)"
    by (simp add: py_cmp_numbers)
  show ?case
  proof (cases "fl_lt fm fx")
    case True
    with Cons.prems cmp have "best_from Gt x xs = Inr r" by (simp add: and_then_def)
    with Cons.IH [of x] Cons.prems(1) have "\<not> fl_lt (the (num_of r)) fx"
      using f by simp
    with True f show ?thesis using fl_lt_trans by auto
  next
    case False
    with Cons.prems cmp have "best_from Gt m xs = Inr r" by (simp add: and_then_def)
    with Cons.IH [of m] Cons.prems(1) show ?thesis by simp
  qed
qed

lemma min_le_max:
  assumes "py_iter temperatures = Inr ts"
    and "py_min temperatures = Inr mn"
    and "py_max temperatures = Inr mx"
  shows "mn \<in> set ts \<and> mx \<in> set ts
         \<and> ((\<forall>t \<in> set ts. \<exists>f. num_of t = Some f \<and> f \<noteq> NaN) \<longrightarrow> py_cmp Le mn mx = Inr True)"
proof -
  from assms obtain x xs where ts: "ts = x # xs"
      and mn: "best_from Lt x xs = Inr mn" and mx: "best_from Gt x xs = Inr mx"
    by (cases ts) (auto simp: py_min_def py_max_def best_of_def and_then_def)
  from best_from_member [OF mn] best_from_member [OF mx] ts
  have mem: "mn \<in> set ts" "mx \<in> set ts" by simp_all
  have "py_cmp Le mn mx = Inr True" if num: "\<forall>t \<in> set ts. \<exists>f. num_of t = Some f \<and> f \<noteq> NaN"
  proof -
    from num ts have all: "\<forall>t \<in> set (x # xs). \<exists>f. num_of t = Some f" by auto
    from num mem ts obtain a b c where
      abc: "num_of mn = Some a" "a \<noteq> NaN" "num_of mx = Some b" "b \<noteq> NaN"
        "num_of x = Some c" "c \<noteq> NaN"
      by (metis list.set_intros(1))
    from best_from_Lt_below [OF all mn] abc have below: "\<not> fl_lt c a" by simp
    from best_from_Gt_above [OF all mx] abc have above: "\<not> fl_lt b c" by simp
    have "\<not> fl_lt b a"
    proof
      assume "fl_lt b a"
      from fl_lt_le_trans [OF this below] abc have "fl_lt b c" by simp
      with above show False by simp
    qed
    with abc show ?thesis by (simp add: py_cmp_numbers)
  qed
  with mem show ?thesis by blast
qed

lemma compile_report_series:
  assumes "compile_report rt found_city country latitude longitude forecast_data = Inr result"
    and "getitem forecast_data ''hourly'' = Inr hourly"
    and "getitem hourly ''time'' = Inr hours"
    and "getitem hourly ''temperature_2m'' = Inr temperatures"
  shows "\<exists>hs ts mn mx. py_iter hours = Inr hs \<and> py_iter temperatures = Inr ts
           \<and> py_min temperatures = Inr mn \<and> py_max temperatures = Inr mx
           \<and> map_of result ''min_temperature_celsius'' = Some (Val mn)
           \<and> map_of result ''max_temperature_celsius'' = Some (Val mx)
           \<and> map_of result ''hourly_data'' = Some (Pairs (zip hs ts))"
  using assms
  by (auto simp: compile_report_def py_zip_def and_then_def split: sum.splits)

lemma get_weather_compiled:
  assumes "get_weather rt out get city = (calls, Inr result)"
    and "map_of result ''status'' = Some (Str ''success'')"
    and "get (geo_call city) = Inr r" and "raise_for_status r = None"
    and "json r = Inr geo_data"
    and "read_location geo_data = Inr (latitude, longitude, found_city, country)"
    and "get (forecast_call latitude longitude) = Inr r'" and "raise_for_status r' = None"
    and "json r' = Inr forecast_data"
  shows "compile_report rt found_city country latitude longitude forecast_data = Inr result"
proof -
  have geo: "get_json get (geo_call city) = Inr geo_data"
    using assms(3-5) by (simp add: get_json_def and_then_def)
  have forecast: "get_json get (forecast_call latitude longitude) = Inr forecast_data"
    using assms(7-9) by (simp add: get_json_def and_then_def)
  from assms(1) have printed: "out (get_weather_called city) = None"
    by (cases "out (get_weather_called city)") (simp_all add: get_weather_def)
  have err: "\<And>e. map_of (weather_error rt e) ''status'' = Some (Str ''error'')"
  proof -
    fix e
    obtain msg where "weather_error rt e = [(''status'', Str ''error''), (''error_message'', Str msg)]"
      using weather_error_shape by blast
    then show "map_of (weather_error rt e) ''status'' = Some (Str ''error'')" by simp
  qed
  from assms(1,2,6) geo forecast printed err show ?thesis
    by (cases "dict_get geo_data ''results'' JNull";
        cases "compile_report rt found_city country latitude longitude forecast_data")
       (auto simp: get_weather_def get_weather_try_def and_then_def error_dict_def
          split: if_splits)
qed

text \<open>
  Claim C3, amended. Take a successful call of \<open>get_weather\<close>, with any geocoding match
  and any forecast answer, whose lists are \<open>hours\<close> (the source's \<^verbatim>\<open>times\<close>) and
  \<open>temperatures\<close>. Then \<open>hourly_data\<close> is \<^verbatim>\<open>zip(times, temperatures)\<close>: it has as many pairs
  as the shorter of the two lists, so \<^verbatim>\<open>len(hourly_data) == len(times)\<close> when the two
  lists have the same length. The minimum and the maximum returned are items of
  \<open>temperatures\<close>, and \<^verbatim>\<open>min <= max\<close> is true when every temperature is a number and none
  is NaN.
\<close>

theorem get_weather_series:
  assumes "get_weather rt out get city = (calls, Inr result)"
    and "map_of result ''status'' = Some (Str ''success'')"
    and "get (geo_call city) = Inr r" and "raise_for_status r = None"
    and "json r = Inr geo_data"
    and "read_location geo_data = Inr (latitude, longitude, found_city, country)"
    and "get (forecast_call latitude longitude) = Inr r'" and "raise_for_status r' = None"
    and "json r' = Inr forecast_data"
    and "getitem forecast_data ''hourly'' = Inr hourly"
    and "getitem hourly ''time'' = Inr hours"
    and "getitem hourly ''temperature_2m'' = Inr temperatures"
  shows "\<exists>hs ts mn mx. py_iter hours = Inr hs \<and> py_iter temperatures = Inr ts
           \<and> py_len hours = Inr (length hs) \<and> py_len temperatures = Inr (length ts)
           \<and> map_of result ''hourly_data'' = Some (Pairs (zip hs ts))
           \<and> length (zip hs ts) = min (length hs) (length ts)
           \<and> (length ts = length hs \<longrightarrow> length (zip hs ts) = length hs)
           \<and> map_of result ''min_temperature_celsius'' = Some (Val mn)
           \<and> map_of result ''max_temperature_celsius'' = Some (Val mx)
           \<and> mn \<in> set ts \<and> mx \<in> set ts
           \<and> ((\<forall>t \<in> set ts. \<exists>f. num_of t = Some f \<and> f \<noteq> NaN)
                \<longrightarrow> py_cmp Le mn mx = Inr True)"
proof -
  have "compile_report rt found_city country latitude longitude forecast_data = Inr result"
    using assms(1-9) by (rule get_weather_compiled)
  from compile_report_series [OF this assms(10-12)] obtain hs ts mn mx
    where s: "py_iter hours = Inr hs" "py_iter temperatures = Inr ts"
      "py_min temperatures = Inr mn" "py_max temperatures = Inr mx"
      "map_of result ''min_temperature_celsius'' = Some (Val mn)"
      "map_of result ''max_temperature_celsius'' = Some (Val mx)"
      "map_of result ''hourly_data'' = Some (Pairs (zip hs ts))"
    by blast
  from min_le_max [OF s(2-4)] have order: "mn \<in> set ts" "mx \<in> set ts"
      "(\<forall>t \<in> set ts. \<exists>f. num_of t = Some f \<and> f \<noteq> NaN) \<longrightarrow> py_cmp Le mn mx = Inr True"
    by blast+
  from s order py_len_iter [OF s(1)] py_len_iter [OF s(2)] show ?thesis
    by (intro exI [of _ hs] exI [of _ ts] exI [of _ mn] exI [of _ mx]) simp
qed

theorem get_weather_series_witness:
  "\<exists>calls result mn mx.
     get_weather sample_rt utf8_stdout
       (weather_service null_island
          (JObj [(''hourly'',
                  JObj [(''time'', JArr [JStr ''2025-12-01T00:00'', JStr ''2025-12-01T01:00'']),
                        (''temperature_2m'', JArr [JInt 9, JInt 7])])]))
       ''Null Island'' = (calls, Inr result)
     \<and> map_of result ''hourly_data''
         = Some (Pairs [(JStr ''2025-12-01T00:00'', JInt 9), (JStr ''2025-12-01T01:00'', JInt 7)])
     \<and> map_of result ''min_temperature_celsius'' = Some (Val mn)
     \<and> map_of result ''max_temperature_celsius'' = Some (Val mx)
     \<and> py_cmp Le mn mx = Inr True"
proof -
  let ?hours = "JArr [JStr ''2025-12-01T00:00'', JStr ''2025-12-01T01:00'']"
  let ?temperatures = "JArr [JInt 9, JInt 7]"
  let ?hourly = "JObj [(''time'', ?hours), (''temperature_2m'', ?temperatures)]"
  let ?forecast = "JObj [(''hourly'', ?hourly)]"
  let ?get = "weather_service null_island ?forecast"
  have "\<exists>calls result. get_weather sample_rt utf8_stdout ?get ''Null Island'' = (calls, Inr result)
          \<and> map_of result ''status'' = Some (Str ''success'')"
    by (simp add: get_weather_def get_weather_try_def get_weather_called_def utf8_stdout_def
          weather_service_def null_island_def ok_response_def get_json_def and_then_def
          geo_call_def forecast_call_def GEOCODING_URL_def FORECAST_URL_def
          read_location_def compile_report_def py_min_def py_max_def best_of_def
          report_head_def sample_rt_def sample_indices_def list_index_def py_zip_def)
  then obtain calls result
    where run: "get_weather sample_rt utf8_stdout ?get ''Null Island'' = (calls, Inr result)"
      and ok: "map_of result ''status'' = Some (Str ''success'')"
    by blast
  have geo: "?get (geo_call ''Null Island'') = Inr (ok_response null_island)"
      "raise_for_status (ok_response null_island) = None"
      "json (ok_response null_island) = Inr null_island"
      "read_location null_island = Inr (JInt 0, JInt 0, JStr ''Null Island'', JStr ''Atlantic'')"
    by (simp_all add: weather_service_def geo_call_def ok_response_def null_island_def
          read_location_def and_then_def)
  have forecast: "?get (forecast_call (JInt 0) (JInt 0)) = Inr (ok_response ?forecast)"
      "raise_for_status (ok_response ?forecast) = None"
      "json (ok_response ?forecast) = Inr ?forecast"
      "getitem ?forecast ''hourly'' = Inr ?hourly"
      "getitem ?hourly ''time'' = Inr ?hours"
      "getitem ?hourly ''temperature_2m'' = Inr ?temperatures"
    by (simp_all add: weather_service_def forecast_call_def ok_response_def
          GEOCODING_URL_def FORECAST_URL_def)
  from get_weather_series [OF run ok geo forecast] obtain hs ts mn mx
    where s: "py_iter ?hours = Inr hs" "py_iter ?temperatures = Inr ts"
      "map_of result ''hourly_data'' = Some (Pairs (zip hs ts))"
      "map_of result ''min_temperature_celsius'' = Some (Val mn)"
      "map_of result ''max_temperature_celsius'' = Some (Val mx)"
      "(\<forall>t \<in> set ts. \<exists>f. num_of t = Some f \<and> f \<noteq> NaN) \<longrightarrow> py_cmp Le mn mx = Inr True"
    by blast
  from s(1,2) have lists: "hs = [JStr ''2025-12-01T00:00'', JStr ''2025-12-01T01:00'']"
      "ts = [JInt 9, JInt 7]"
    by simp_all
  with s(6) have "py_cmp Le mn mx = Inr True" by simp
  with run s(3-5) lists show ?thesis
    by (intro exI [of _ calls] exI [of _ result] exI [of _ mn] exI [of _ mx]) simp
qed

text \<open>
  The claim as stated fails: the forecast answers with two hours and one temperature,
  which is null. The call succeeds, \<open>hourly_data\<close> has one pair while \<^verbatim>\<open>len(times)\<close> is 2,
  and the minimum and the maximum are both \<^verbatim>\<open>None\<close>, for which \<^verbatim>\<open>min <= max\<close> is a
  \<^verbatim>\<open>TypeError\<close>, not true. Of a list whose one temperature is NaN, the minimum and the
  maximum are NaN, and \<^verbatim>\<open>min <= max\<close> is false.
\<close>

theorem get_weather_series_counterexample:
  "get_weather sample_rt utf8_stdout
       (weather_service null_island
          (JObj [(''hourly'',
                  JObj [(''time'', JArr [JStr ''2025-12-01T00:00'', JStr ''2025-12-01T01:00'']),
                        (''temperature_2m'', JArr [JNull])])]))
       ''Null Island''
     = ([(''https://geocoding-api.open-meteo.com/v1/search'',
          [(''name'', JStr ''Null Island''), (''count'', JInt 1),
           (''language'', JStr ''en''), (''format'', JStr ''json'')]),
         (''https://api.open-meteo.com/v1/forecast'',
          [(''latitude'', JInt 0), (''longitude'', JInt 0),
           (''hourly'', JStr ''temperature_2m''), (''forecast_days'', JInt 1)])],
        Inr [(''status'', Str ''success''),
             (''city'', Val (JStr ''Null Island'')),
             (''report'',
              Str (''Hourly Temperature Forecast for Null Island, Atlantic ''
                   @ ''(Lat: 0.00, Lon: 0.00) for the next 24 hours:\<newline>''
                   @ ''Min Temperature: None'' @ [CHR 0xC2, CHR 0xB0] @ ''C\<newline>''
                   @ ''Max Temperature: None'' @ [CHR 0xC2, CHR 0xB0] @ ''C\<newline>''
                   @ ''Hourly Data (Time: Temp):\<newline>''
                   @ ''  00h: None'' @ [CHR 0xC2, CHR 0xB0] @ ''C\<newline>'')),
             (''min_temperature_celsius'', Val JNull),
             (''max_temperature_celsius'', Val JNull),
             (''hourly_data'', Pairs [(JStr ''2025-12-01T00:00'', JNull)])])
   \<and> py_len (JArr [JStr ''2025-12-01T00:00'', JStr ''2025-12-01T01:00'']) = Inr 2
   \<and> length [(JStr ''2025-12-01T00:00'', JNull)] = 1
   \<and> py_cmp Le JNull JNull = Inl TypeError
   \<and> py_min (JArr [JFloat NaN]) = Inr (JFloat NaN)
   \<and> py_max (JArr [JFloat NaN]) = Inr (JFloat NaN)
   \<and> py_cmp Le (JFloat NaN) (JFloat NaN) = Inr False"
  by (simp add: get_weather_def get_weather_try_def get_weather_called_def utf8_stdout_def
        weather_service_def null_island_def ok_response_def get_json_def and_then_def
        geo_call_def forecast_call_def GEOCODING_URL_def FORECAST_URL_def
        read_location_def compile_report_def py_min_def py_max_def best_of_def
        report_head_def sample_rt_def sample_indices_def list_index_def py_zip_def
        degree_sign_def)

end
